theory Spec2Isabelle
  imports Complex_Main "HOL-Library.Log_Nat"
begin

section \<open>Numbers, configuration and data model\<close>

text \<open>
  The bot is JavaScript, and its numbers (SOL amounts, prices, percentages) are IEEE-754
  binary64 values. The model has two layers.

  The ledger (budget, positions, completed trades) stores, adds and compares amounts; there
  a number is a real, and the theorems about the ledger speak of the amounts as values that
  are stored and passed on.

  Where an outcome depends on how a computed value is rounded, every arithmetic operation
  of the source is the exact operation followed by rounding to the nearest binary64 value,
  ties to even, with gradual underflow (\<open>fl64\<close>, section \<open>Binary64 arithmetic\<close>).
  This is the case for the two pricing formulas when their values are the subject
  (\<open>calculateTokensForSol64\<close>, \<open>calculateSolForTokens64\<close>) and for the three
  exit conditions of \<open>checkExitConditions\<close>. Results beyond the largest finite
  binary64 value (which JavaScript turns into \<open>Infinity\<close>), \<open>NaN\<close> and the sign of
  zero are not part of the model; a theorem that would depend on them carries the range as
  a hypothesis. The one place where the source divides by zero with a visible effect (the
  profit ratio of a position whose buy price is zero) is written out in
  \<open>profitTargetHit\<close>.

  Timestamps are the integer milliseconds of \<open>Date.now()\<close>. A value that can be
  \<open>undefined\<close> or \<open>null\<close> in the source is an \<open>option\<close>.

  The module \<open>config.js\<close> is not among the sources; every function takes the
  configuration as a record, so each theorem holds for every configuration unless it
  says otherwise. The position limit is a count, a natural number; the other settings
  are numbers.
\<close>

record config =
  VIRTUAL_BUDGET_SOL :: real
  TRADE_SIZE_SOL :: real
  MAX_CONCURRENT_POSITIONS :: nat
  RAYDIUM_FEE_PERCENT :: real
  PROFIT_TARGET_PERCENT :: real
  TRAILING_STOP_PERCENT :: real
  TRADE_TIME_LIMIT_MINUTES :: real
  MIN_LIQUIDITY_SOL :: real
  MAX_POOL_AGE_MINUTES :: real

text \<open>
  Modelled from the spec: the default values of the absent \<open>config.js\<close>, as the
  specification and the product requirements in the repository give them (budget 5 SOL,
  trade size 0.5 SOL, 10 positions, fee 0.25%, profit target 15%, trailing stop 5%, time
  limit 60 minutes, minimum liquidity 10 SOL, pool age ceiling 5 minutes). Only the
  concrete examples use it.
\<close>

definition defaultConfig :: config where
  "defaultConfig =
     \<lparr> VIRTUAL_BUDGET_SOL = 5,
       TRADE_SIZE_SOL = 1 / 2,
       MAX_CONCURRENT_POSITIONS = 10,
       RAYDIUM_FEE_PERCENT = 25 / 10000,
       PROFIT_TARGET_PERCENT = 15 / 100,
       TRAILING_STOP_PERCENT = 5 / 100,
       TRADE_TIME_LIMIT_MINUTES = 60,
       MIN_LIQUIDITY_SOL = 10,
       MAX_POOL_AGE_MINUTES = 5 \<rparr>"

text \<open>A live position, with the fields \<open>simulateBuy\<close> gives it.\<close>

record position =
  tokenMintAddress :: string
  poolId :: string
  buyPrice :: real
  buyTimestamp :: int
  tokenAmount :: real
  peakPrice :: real
  tradeSizeSol :: real

text \<open>
  The record \<open>simulateSell\<close> hands to \<open>logCompletedTrade\<close>: the sold position's
  fields (kept together as \<open>soldFields\<close>) and the five fields of the sale.
\<close>

record completedTrade =
  soldFields :: position
  sellPrice :: real
  solProceeds :: real
  exitReason :: string
  sellTimestamp :: int
  profitOrLoss :: real

text \<open>
  The state of the trading module: its two module-level variables, and the sequence of
  records appended to the completed-trades log.
\<close>

record ledger =
  virtualBudget :: real
  activePositions :: "position list"
  completedTrades :: "completedTrade list"

section \<open>Binary64 arithmetic\<close>

text \<open>
  Rounding of a real to binary64. \<open>roundHalfEven\<close> rounds to the nearest integer, a
  tie going to the even one. \<open>binExp x\<close> is the binary exponent of a positive \<open>x\<close>,
  the \<open>e\<close> with \<open>2^e \<le> x < 2^(e+1)\<close>. \<open>ulp64 x\<close> is the spacing of the binary64
  values around \<open>x\<close>: 53 significant bits, and never finer than \<open>2^-1074\<close>, the
  spacing of the subnormal values. \<open>fl64 x\<close> is the multiple of that spacing nearest
  to \<open>x\<close>.
\<close>

definition roundHalfEven :: "real \<Rightarrow> int" where
  "roundHalfEven y =
     (let n = \<lfloor>y\<rfloor>; d = y - of_int n
      in if d < 1 / 2 then n else if 1 / 2 < d then n + 1 else if even n then n else n + 1)"

definition binExp :: "real \<Rightarrow> int" where
  "binExp x =
     (if 1 \<le> x then bitlen \<lfloor>x\<rfloor> - 1 else - bitlen (\<lceil>1 / x\<rceil> - 1))"

definition ulp64 :: "real \<Rightarrow> real" where
  "ulp64 x = 2 powi (max (binExp \<bar>x\<bar> - 52) (- 1074))"

definition fl64 :: "real \<Rightarrow> real" where
  "fl64 x = (if x = 0 then 0 else of_int (roundHalfEven (x / ulp64 x)) * ulp64 x)"


definition sub64 :: "real \<Rightarrow> real \<Rightarrow> real" where
  "sub64 a b = fl64 (a - b)"

definition mul64 :: "real \<Rightarrow> real \<Rightarrow> real" where
  "mul64 a b = fl64 (a * b)"

definition div64 :: "real \<Rightarrow> real \<Rightarrow> real" where
  "div64 a b = fl64 (a / b)"

text \<open>
  The largest finite binary64 value; the reals that are finite binary64 values; and the
  reals in the range where binary64 keeps its full 53 bits (the normal range).
\<close>

definition maxDouble :: real where
  "maxDouble = (2 ^ 53 - 1) * 2 ^ 971"

definition double64 :: "real \<Rightarrow> bool" where
  "double64 x = (fl64 x = x \<and> \<bar>x\<bar> \<le> maxDouble)"

definition normal64 :: "real \<Rightarrow> bool" where
  "normal64 x = (2 powi (- 1022) \<le> \<bar>x\<bar> \<and> \<bar>x\<bar> \<le> maxDouble)"

section \<open>The pricing functions\<close>

text \<open>
  The two pricing functions over exact reals. The ledger functions below call these
  forms: they store the amount, add it to the budget and compare it with zero.
\<close>


definition calculateTokensForSol :: "real \<Rightarrow> real \<Rightarrow> real \<Rightarrow> real \<Rightarrow> real" where
  "calculateTokensForSol solAmount currentPriceInSol feePercent slippagePercent =
     (if currentPriceInSol \<le> 0 then 0
      else
        let solAfterFee = solAmount * (1 - feePercent);
            tokensBeforeSlippage = solAfterFee / currentPriceInSol;
            tokensAfterSlippage = tokensBeforeSlippage * (1 - slippagePercent)
        in tokensAfterSlippage)"

definition calculateSolForTokens :: "real \<Rightarrow> real \<Rightarrow> real \<Rightarrow> real \<Rightarrow> real" where
  "calculateSolForTokens tokenAmt currentPriceInSol feePercent slippagePercent =
     (if currentPriceInSol \<le> 0 then 0
      else
        let tokensToSell = tokenAmt;
            solBeforeFeeAndSlippage = tokensToSell * currentPriceInSol;
            solAfterFee = solBeforeFeeAndSlippage * (1 - feePercent);
            solAfterSlippage = solAfterFee * (1 - slippagePercent)
        in solAfterSlippage)"

text \<open>
  The same two functions with each operation as JavaScript performs it, in binary64. The
  subtraction \<open>1 - feePercent\<close>, the two multiplications and the division each round
  once, in the order the source evaluates them.
\<close>

definition calculateTokensForSol64 :: "real \<Rightarrow> real \<Rightarrow> real \<Rightarrow> real \<Rightarrow> real" where
  "calculateTokensForSol64 solAmount currentPriceInSol feePercent slippagePercent =
     (if currentPriceInSol \<le> 0 then 0
      else
        let solAfterFee = mul64 solAmount (sub64 1 feePercent);
            tokensBeforeSlippage = div64 solAfterFee currentPriceInSol;
            tokensAfterSlippage = mul64 tokensBeforeSlippage (sub64 1 slippagePercent)
        in tokensAfterSlippage)"

definition calculateSolForTokens64 :: "real \<Rightarrow> real \<Rightarrow> real \<Rightarrow> real \<Rightarrow> real" where
  "calculateSolForTokens64 tokenAmt currentPriceInSol feePercent slippagePercent =
     (if currentPriceInSol \<le> 0 then 0
      else
        let tokensToSell = tokenAmt;
            solBeforeFeeAndSlippage = mul64 tokensToSell currentPriceInSol;
            solAfterFee = mul64 solBeforeFeeAndSlippage (sub64 1 feePercent);
            solAfterSlippage = mul64 solAfterFee (sub64 1 slippagePercent)
        in solAfterSlippage)"

section \<open>The position ledger\<close>

definition initialState :: "config \<Rightarrow> ledger" where
  "initialState cfg =
     \<lparr> virtualBudget = VIRTUAL_BUDGET_SOL cfg, activePositions = [], completedTrades = [] \<rparr>"

text \<open>
  \<open>initializeTrading\<close>: \<open>loadedTrades\<close> is what \<open>loadActiveTrades\<close> returned (always
  an array). The budget is not touched by the load; only the final clamp writes it.
\<close>

definition initializeTrading :: "position list \<Rightarrow> ledger \<Rightarrow> ledger" where
  "initializeTrading loadedTrades st =
     (let st1 = (if length loadedTrades > 0 then st\<lparr>activePositions := loadedTrades\<rparr> else st)
      in if virtualBudget st1 < 0 then st1\<lparr>virtualBudget := 0\<rparr> else st1)"

definition getVirtualBudget :: "ledger \<Rightarrow> real" where
  "getVirtualBudget st = virtualBudget st"

definition getActivePositions :: "ledger \<Rightarrow> position list" where
  "getActivePositions st = activePositions st"

definition canBuy :: "config \<Rightarrow> ledger \<Rightarrow> string \<Rightarrow> bool" where
  "canBuy cfg st tokenMint =
     (if virtualBudget st < TRADE_SIZE_SOL cfg then False
      else if length (activePositions st) \<ge> MAX_CONCURRENT_POSITIONS cfg then False
      else if list_ex (\<lambda>pos. tokenMintAddress pos = tokenMint) (activePositions st) then False
      else True)"

text \<open>
  \<open>simulateBuy\<close>: \<open>rnd\<close> is the value \<open>Math.random()\<close> returned and \<open>now\<close> the value
  of \<open>Date.now()\<close>. The result is the new position (\<open>None\<close> for \<open>null\<close>) and the
  state after the call.
\<close>

definition simulateBuy ::
  "config \<Rightarrow> string \<Rightarrow> string \<Rightarrow> real \<Rightarrow> real \<Rightarrow> int \<Rightarrow> ledger \<Rightarrow> position option \<times> ledger" where
  "simulateBuy cfg tokenMint pool currentPriceInSol rnd now st =
     (if \<not> canBuy cfg st tokenMint then (None, st)
      else
        let simulatedSlippagePercent = rnd * (5 / 100 - 1 / 100) + 1 / 100;
            calculatedTokenAmount =
              calculateTokensForSol (TRADE_SIZE_SOL cfg) currentPriceInSol
                (RAYDIUM_FEE_PERCENT cfg) simulatedSlippagePercent
        in if calculatedTokenAmount = 0 \<or> calculatedTokenAmount \<le> 0 then (None, st)
           else
             let newPosition =
                   \<lparr> tokenMintAddress = tokenMint,
                     poolId = pool,
                     buyPrice = currentPriceInSol,
                     buyTimestamp = now,
                     tokenAmount = calculatedTokenAmount,
                     peakPrice = currentPriceInSol,
                     tradeSizeSol = TRADE_SIZE_SOL cfg \<rparr>
             in (Some newPosition,
                 st\<lparr> virtualBudget := virtualBudget st - TRADE_SIZE_SOL cfg,
                     activePositions := activePositions st @ [newPosition] \<rparr>))"

text \<open>
  \<open>simulateSell\<close>: the position argument may be \<open>null\<close>; \<open>why\<close> is the exit
  reason. The token amount and the committed cost are read from the position passed in;
  the ledger is only searched for a position with the same mint. The completed trade is
  appended to the log.
\<close>

definition simulateSell ::
  "config \<Rightarrow> position option \<Rightarrow> real \<Rightarrow> string \<Rightarrow> real \<Rightarrow> int \<Rightarrow> ledger
     \<Rightarrow> (real \<times> position) option \<times> ledger" where
  "simulateSell cfg positionArg currentPriceInSol why rnd now st =
     (case positionArg of
        None \<Rightarrow> (None, st)
      | Some pos \<Rightarrow>
          if find (\<lambda>p. tokenMintAddress p = tokenMintAddress pos) (activePositions st) = None
          then (None, st)
          else
            let simulatedSlippagePercent = rnd * (3 / 100 - 1 / 100) + 1 / 100;
                calculatedSolProceeds =
                  calculateSolForTokens (tokenAmount pos) currentPriceInSol
                    (RAYDIUM_FEE_PERCENT cfg) simulatedSlippagePercent
            in if calculatedSolProceeds < 0 then (None, st)
               else
                 let completedTradeData =
                       \<lparr> soldFields = pos,
                         sellPrice = currentPriceInSol,
                         solProceeds = calculatedSolProceeds,
                         exitReason = why,
                         sellTimestamp = now,
                         profitOrLoss = calculatedSolProceeds - tradeSizeSol pos \<rparr>
                 in (Some (calculatedSolProceeds, pos),
                     st\<lparr> virtualBudget := virtualBudget st + calculatedSolProceeds,
                         completedTrades := completedTrades st @ [completedTradeData],
                         activePositions :=
                           filter (\<lambda>p. tokenMintAddress p \<noteq> tokenMintAddress pos)
                             (activePositions st) \<rparr>))"

text \<open>
  \<open>updatePeakPrice\<close> mutates the first position that \<open>find\<close> returns for the mint, in
  place; \<open>raisePeak\<close> is that search and mutation on the list.
\<close>

fun raisePeak :: "string \<Rightarrow> real \<Rightarrow> position list \<Rightarrow> position list" where
  "raisePeak tokenMint currentPriceInSol [] = []"
| "raisePeak tokenMint currentPriceInSol (p # ps) =
     (if tokenMintAddress p = tokenMint
      then (if currentPriceInSol > peakPrice p then p\<lparr>peakPrice := currentPriceInSol\<rparr> else p) # ps
      else p # raisePeak tokenMint currentPriceInSol ps)"

definition updatePeakPrice :: "string \<Rightarrow> real \<Rightarrow> ledger \<Rightarrow> ledger" where
  "updatePeakPrice tokenMint currentPriceInSol st =
     st\<lparr>activePositions := raisePeak tokenMint currentPriceInSol (activePositions st)\<rparr>"

section \<open>The exit strategy engine\<close>






section \<open>The token qualifier\<close>

definition WRAPPED_SOL_MINT :: string where
  "WRAPPED_SOL_MINT = ''So11111111111111111111111111111111111111112''"

text \<open>
  A pool event as the detector builds it. The two mints are read from fixed positions of
  the instruction's account list and are \<open>undefined\<close> when the list is shorter.
  \<open>timestamp\<close> is the event's time in milliseconds, the value of
  \<open>new Date(poolData.timestamp).getTime()\<close>.
\<close>

record poolData =
  ammId :: string
  transaction_signature :: string
  timestamp :: int
  tokenA_mint :: "string option"
  tokenB_mint :: "string option"
  lp_mint :: "string option"

record mintInfo =
  freezeAuthority :: "string option"

record liquidityData =
  rawData :: "string option"
  solAmount :: "real option"

text \<open>
  The reason of a verdict: the source writes a sentence; the model keeps which sentence
  it is, and the measured number where the sentence has one.
\<close>

datatype verdictReason =
    PoolTooOld real
  | NotDirectSolPair
  | NewTokenIsSol
  | MintInfoFailed
  | FreezeNotRevoked
  | LiquidityFetchFailed
  | InsufficientLiquidity real
  | UnexpectedLiquidityFormat
  | AllChecksPassed

record verdict =
  suitable :: bool
  reason :: verdictReason
  tokenMint :: "string option"
  verdictPoolId :: "string option"

definition rejectWith :: "verdictReason \<Rightarrow> verdict" where
  "rejectWith r = \<lparr> suitable = False, reason = r, tokenMint = None, verdictPoolId = None \<rparr>"

text \<open>JavaScript's \<open>!x\<close> for a string that may be absent, and for a number that may be.\<close>

definition falsyString :: "string option \<Rightarrow> bool" where
  "falsyString x = (case x of None \<Rightarrow> True | Some s \<Rightarrow> s = [])"

definition falsyNumber :: "real option \<Rightarrow> bool" where
  "falsyNumber x = (case x of None \<Rightarrow> True | Some v \<Rightarrow> v = 0)"

text \<open>
  \<open>analyzeTokenAndPool\<close>: \<open>getMintAccountInfo\<close> and \<open>getPoolLiquidity\<close> are the two
  lookups (\<open>None\<close> for \<open>null\<close>), \<open>currentTime\<close> the value of \<open>Date.now()\<close>.
\<close>

definition analyzeTokenAndPool ::
  "config \<Rightarrow> (string \<Rightarrow> mintInfo option) \<Rightarrow> (string \<Rightarrow> liquidityData option) \<Rightarrow> int
     \<Rightarrow> poolData \<Rightarrow> verdict" where
  "analyzeTokenAndPool cfg getMintAccountInfo getPoolLiquidity currentTime pd =
     (let poolTimestamp = timestamp pd;
          poolAgeMinutes = real_of_int (currentTime - poolTimestamp) / (1000 * 60)
      in if poolAgeMinutes > MAX_POOL_AGE_MINUTES cfg then rejectWith (PoolTooOld poolAgeMinutes)
         else
           let (solMint, newTokenMint) =
                 (if tokenA_mint pd = Some WRAPPED_SOL_MINT then (tokenA_mint pd, tokenB_mint pd)
                  else if tokenB_mint pd = Some WRAPPED_SOL_MINT
                       then (tokenB_mint pd, tokenA_mint pd)
                       else (None, None))
           in if falsyString solMint \<or> falsyString newTokenMint then rejectWith NotDirectSolPair
              else if newTokenMint = Some WRAPPED_SOL_MINT then rejectWith NewTokenIsSol
              else
                (case getMintAccountInfo (the newTokenMint) of
                   None \<Rightarrow> rejectWith MintInfoFailed
                 | Some info \<Rightarrow>
                     if freezeAuthority info \<noteq> None then rejectWith FreezeNotRevoked
                     else
                       (case getPoolLiquidity (ammId pd) of
                          None \<Rightarrow> rejectWith LiquidityFetchFailed
                        | Some ld \<Rightarrow>
                            let accept =
                                  \<lparr> suitable = True, reason = AllChecksPassed,
                                    tokenMint = newTokenMint, verdictPoolId = Some (ammId pd) \<rparr>
                            in if \<not> falsyString (rawData ld) \<and> falsyNumber (solAmount ld)
                               then accept
                               else
                                 (case solAmount ld of
                                    Some solReserveAmount \<Rightarrow>
                                      if solReserveAmount < MIN_LIQUIDITY_SOL cfg
                                      then rejectWith (InsufficientLiquidity solReserveAmount)
                                      else accept
                                  | None \<Rightarrow> rejectWith UnexpectedLiquidityFormat))))"

text \<open>
  \<open>getPoolLiquidity\<close> of the Solana service, the lookup the bot passes to the
  qualifier: \<open>accountData\<close> is the account's data in base64 (\<open>None\<close> when the
  account is not found or the request fails). It never parses the reserves: it returns
  \<open>null\<close> or an object that holds \<open>rawData\<close> only.
\<close>

definition getPoolLiquidity :: "(string \<Rightarrow> string option) \<Rightarrow> string \<Rightarrow> liquidityData option" where
  "getPoolLiquidity accountData poolStateAccount =
     (case accountData poolStateAccount of
        None \<Rightarrow> None
      | Some base64 \<Rightarrow> Some \<lparr> rawData = Some base64, solAmount = None \<rparr>)"

section \<open>Sequences of ledger operations\<close>

text \<open>
  The calls that reach the ledger, with the arguments and the sampled values of each:
  a buy, a sell and a peak update.
\<close>

datatype ledgerOp =
    Buy string string real real int
  | Sell "position option" real string real int
  | UpdatePeak string real

fun applyOp :: "config \<Rightarrow> ledgerOp \<Rightarrow> ledger \<Rightarrow> ledger" where
  "applyOp cfg (Buy mint pool price rnd now) st =
     snd (simulateBuy cfg mint pool price rnd now st)"
| "applyOp cfg (Sell positionArg price why rnd now) st =
     snd (simulateSell cfg positionArg price why rnd now st)"
| "applyOp cfg (UpdatePeak mint price) st = updatePeakPrice mint price st"

definition runOps :: "config \<Rightarrow> ledgerOp list \<Rightarrow> ledger \<Rightarrow> ledger" where
  "runOps cfg ops st = fold (applyOp cfg) ops st"

text \<open>The two invariants of the ledger that the sequences are shown to keep.\<close>

definition budgetOk :: "config \<Rightarrow> ledger \<Rightarrow> bool" where
  "budgetOk cfg st =
     (0 \<le> virtualBudget st \<and> length (activePositions st) \<le> MAX_CONCURRENT_POSITIONS cfg)"

definition peakOk :: "ledger \<Rightarrow> bool" where
  "peakOk st = list_all (\<lambda>p. buyPrice p \<le> peakPrice p) (activePositions st)"

section \<open>Concrete scenarios\<close>

text \<open>
  The state after one buy of \<open>MintA\<close> at price 2 from the default initial state, with
  \<open>Math.random()\<close> returning one half (slippage 3%), and two positions that are not in
  that ledger: one for another mint, one for the same mint with a negative token amount.
\<close>

definition mintA_position :: position where
  "mintA_position =
     \<lparr> tokenMintAddress = ''MintA'', poolId = ''PoolA'', buyPrice = 2, buyTimestamp = 0,
       tokenAmount = 38703 / 160000, peakPrice = 2, tradeSizeSol = 1 / 2 \<rparr>"

definition afterFirstBuy :: ledger where
  "afterFirstBuy =
     \<lparr> virtualBudget = 9 / 2, activePositions = [mintA_position], completedTrades = [] \<rparr>"

definition mintZ_position :: position where
  "mintZ_position =
     \<lparr> tokenMintAddress = ''MintZ'', poolId = ''PoolZ'', buyPrice = 2, buyTimestamp = 0,
       tokenAmount = 1, peakPrice = 2, tradeSizeSol = 1 / 2 \<rparr>"

definition mintA_negative :: position where
  "mintA_negative =
     \<lparr> tokenMintAddress = ''MintA'', poolId = ''PoolA'', buyPrice = 2, buyTimestamp = 0,
       tokenAmount = - 1, peakPrice = 2, tradeSizeSol = 1 / 2 \<rparr>"

text \<open>
  Sequences of ledger calls from the default initial state: a buy, two peak updates (the
  second below the stored peak), a second buy of the same mint, and then a sell.
\<close>

definition exampleOps :: "ledgerOp list" where
  "exampleOps =
     [Buy ''MintA'' ''PoolA'' 2 (1 / 2) 0,
      UpdatePeak ''MintA'' 3,
      UpdatePeak ''MintA'' (5 / 2),
      Buy ''MintA'' ''PoolA'' 4 (1 / 2) 1000]"

definition closingOps :: "ledgerOp list" where
  "closingOps =
     exampleOps @ [Sell (Some (mintA_position\<lparr>peakPrice := 3\<rparr>)) 3 ''time_limit'' (1 / 2) 7000]"










text \<open>
  Pool events for the qualifier, one minute old at time 60000: a pool that pairs wrapped
  SOL with \<open>TokenX\<close>, and one whose second mint is \<open>undefined\<close>. Every mint has its
  freeze authority revoked. \<open>poolAccounts\<close> is a chain on which every pool account
  exists; \<open>deepLiquidity\<close> is a lookup that reports a parsed reserve of 50 SOL.
\<close>

definition revokedMints :: "string \<Rightarrow> mintInfo option" where
  "revokedMints mint = Some \<lparr> freezeAuthority = None \<rparr>"

definition poolAccounts :: "string \<Rightarrow> string option" where
  "poolAccounts account = Some ''AAAA''"

definition deepLiquidity :: "string \<Rightarrow> liquidityData option" where
  "deepLiquidity pool = Some \<lparr> rawData = None, solAmount = Some 50 \<rparr>"

definition freshSolPool :: poolData where
  "freshSolPool =
     \<lparr> ammId = ''PoolX'', transaction_signature = ''Sig1'', timestamp = 0,
       tokenA_mint = Some WRAPPED_SOL_MINT, tokenB_mint = Some ''TokenX'',
       lp_mint = Some ''LpX'' \<rparr>"

definition missingMintPool :: poolData where
  "missingMintPool =
     \<lparr> ammId = ''PoolY'', transaction_signature = ''Sig2'', timestamp = 0,
       tokenA_mint = Some WRAPPED_SOL_MINT, tokenB_mint = None,
       lp_mint = Some ''LpY'' \<rparr>"

section \<open>Properties of binary64 rounding\<close>

lemma roundHalfEven_of_int [simp]: "roundHalfEven (of_int n) = n"
  by (simp add: roundHalfEven_def)

lemma roundHalfEven_error: "\<bar>of_int (roundHalfEven y) - y\<bar> \<le> 1 / 2"
proof -
  have "of_int \<lfloor>y\<rfloor> \<le> y" "y < of_int \<lfloor>y\<rfloor> + 1" by linarith+
  then show ?thesis
    by (auto simp: roundHalfEven_def Let_def)
qed

lemma roundHalfEven_mono: "y \<le> z \<Longrightarrow> roundHalfEven y \<le> roundHalfEven z"
proof -
  assume yz: "y \<le> z"
  then have fl: "\<lfloor>y\<rfloor> \<le> \<lfloor>z\<rfloor>" by (rule floor_mono)
  have ry: "\<lfloor>y\<rfloor> \<le> roundHalfEven y" "roundHalfEven y \<le> \<lfloor>y\<rfloor> + 1"
    by (auto simp: roundHalfEven_def Let_def)
  have rz: "\<lfloor>z\<rfloor> \<le> roundHalfEven z" "roundHalfEven z \<le> \<lfloor>z\<rfloor> + 1"
    by (auto simp: roundHalfEven_def Let_def)
  show ?thesis
  proof (cases "\<lfloor>y\<rfloor> = \<lfloor>z\<rfloor>")
    case True
    with yz show ?thesis by (auto simp: roundHalfEven_def Let_def)
  next
    case False
    with fl have "\<lfloor>y\<rfloor> + 1 \<le> \<lfloor>z\<rfloor>" by simp
    with ry rz show ?thesis by linarith
  qed
qed

lemma roundHalfEven_le: "y \<le> of_int N \<Longrightarrow> roundHalfEven y \<le> N"
  using roundHalfEven_mono [of y "of_int N"] by simp

lemma roundHalfEven_ge: "of_int N \<le> y \<Longrightarrow> N \<le> roundHalfEven y"
  using roundHalfEven_mono [of "of_int N" y] by simp

lemma real_pow2_le: "2 ^ k \<le> (n::nat) \<Longrightarrow> (2::real) ^ k \<le> real n"
proof -
  assume "2 ^ k \<le> n"
  then have "real (2 ^ k) \<le> real n" by (rule of_nat_mono)
  then show ?thesis by (simp only: of_nat_power of_nat_numeral)
qed

lemma real_lt_pow2: "(n::nat) < 2 ^ k \<Longrightarrow> real n + 1 \<le> 2 ^ k"
proof -
  assume "n < 2 ^ k"
  then have "n + 1 \<le> 2 ^ k" by simp
  then have "real (n + 1) \<le> real (2 ^ k)" by (rule of_nat_mono)
  then show ?thesis by (simp only: of_nat_power of_nat_numeral of_nat_add of_nat_1)
qed

lemma binExp_ge1:
  assumes "1 \<le> x"
  shows "\<exists>k. binExp x = int k \<and> 2 ^ k \<le> x \<and> x < 2 ^ (k + 1)"
proof -
  define n where "n = nat \<lfloor>x\<rfloor>"
  from assms have n: "0 < n" by (simp add: n_def)
  define k where "k = floorlog 2 n - 1"
  from n have pos: "0 < floorlog 2 n" by (simp add: floorlog_def)
  then have fk: "floorlog 2 n = k + 1" by (simp add: k_def)
  from floorlog_bounds [OF n, of 2] have b: "2 ^ k \<le> n" "n < 2 ^ (k + 1)"
    by (simp_all add: k_def [symmetric] fk)
  have "0 \<le> \<lfloor>x\<rfloor>" using assms by simp
  then have rn: "real n = of_int \<lfloor>x\<rfloor>" by (simp add: n_def)
  have nx: "real n \<le> x" "x < real n + 1" unfolding rn by linarith+
  from real_pow2_le [OF b(1)] nx(1) have lo: "(2::real) ^ k \<le> x" by linarith
  from real_lt_pow2 [OF b(2)] nx(2) have hi: "x < (2::real) ^ (k + 1)" by linarith
  have "binExp x = int (floorlog 2 n) - 1" using assms by (simp add: binExp_def bitlen_def n_def)
  also have "\<dots> = int k" by (simp add: fk)
  finally show ?thesis using lo hi by blast
qed

lemma binExp_lt1:
  assumes "0 < x" "x < 1"
  shows "\<exists>m. binExp x = - int m \<and> 0 < m \<and> 1 / 2 ^ m \<le> x \<and> x < 1 / 2 ^ (m - 1)"
proof -
  define M where "M = nat (\<lceil>1 / x\<rceil> - 1)"
  define m where "m = floorlog 2 M"
  from assms have r: "1 < 1 / x" by simp
  then have c: "2 \<le> \<lceil>1 / x\<rceil>" by linarith
  then have M: "0 < M" by (simp add: M_def)
  then have pos: "0 < m" by (simp add: m_def floorlog_def)
  from floorlog_bounds [OF M, of 2] have b: "2 ^ (m - 1) \<le> M" "M < 2 ^ m"
    by (simp_all add: m_def)
  from c have "0 \<le> \<lceil>1 / x\<rceil> - 1" by linarith
  then have Mr: "real M = of_int \<lceil>1 / x\<rceil> - 1" by (simp add: M_def)
  have up: "1 / x \<le> real M + 1" unfolding Mr by linarith
  have dn: "real M < 1 / x" unfolding Mr by linarith
  from real_lt_pow2 [OF b(2)] up have "1 / x \<le> 2 ^ m" by linarith
  with assms(1) have lo: "1 / 2 ^ m \<le> x" by (simp add: field_simps)
  from real_pow2_le [OF b(1)] dn have "(2::real) ^ (m - 1) < 1 / x" by linarith
  with assms(1) have hi: "x < 1 / 2 ^ (m - 1)" by (simp add: field_simps)
  have "binExp x = - int m" using assms by (simp add: binExp_def bitlen_def M_def m_def)
  with pos lo hi show ?thesis by blast
qed

lemma binExp_bounds:
  assumes "0 < x"
  shows "2 powi binExp x \<le> x" and "x < 2 powi (binExp x + 1)"
proof -
  have "2 powi binExp x \<le> x \<and> x < 2 powi (binExp x + 1)"
  proof (cases "1 \<le> x")
    case True
    from binExp_ge1 [OF True] obtain k where
      k: "binExp x = int k" "2 ^ k \<le> x" "x < 2 ^ (k + 1)" by blast
    have "2 powi (int k) = (2::real) ^ k" by simp
    moreover have "2 powi (int k + 1) = (2::real) ^ (k + 1)"
      by (metis of_nat_1 of_nat_add power_int_of_nat)
    ultimately show ?thesis using k by simp
  next
    case False
    with assms have "x < 1" by simp
    from binExp_lt1 [OF assms this] obtain m where
      m: "binExp x = - int m" "0 < m" "1 / 2 ^ m \<le> x" "x < 1 / 2 ^ (m - 1)" by blast
    have a: "2 powi (- int m) = 1 / (2::real) ^ m"
      by (simp add: power_int_minus_divide)
    have "- int m + 1 = - int (m - 1)" using m(2) by simp
    then have b: "2 powi (- int m + 1) = 1 / (2::real) ^ (m - 1)"
      by (simp only: power_int_minus_divide power_int_of_nat)
    show ?thesis unfolding m(1) a b using m(3,4) by simp
  qed
  then show "2 powi binExp x \<le> x" and "x < 2 powi (binExp x + 1)" by simp_all
qed

lemma two_powi_less_imp:
  "(2::real) powi a < 2 powi b \<Longrightarrow> a < b"
proof (rule ccontr)
  assume lt: "(2::real) powi a < 2 powi b" and "\<not> a < b"
  then have "b \<le> a" by simp
  then have "(2::real) powi b \<le> 2 powi a" by (rule power_int_increasing) simp
  with lt show False by simp
qed

lemma binExp_unique:
  assumes "0 < x" "2 powi e \<le> x" "x < 2 powi (e + 1)"
  shows "binExp x = e"
proof -
  from binExp_bounds [OF assms(1)] assms(2,3)
  have a: "(2::real) powi binExp x < 2 powi (e + 1)"
    and b: "(2::real) powi e < 2 powi (binExp x + 1)"
    by linarith+
  from two_powi_less_imp [OF a] two_powi_less_imp [OF b] show ?thesis by simp
qed

lemma binExp_mono: "0 < x \<Longrightarrow> x \<le> y \<Longrightarrow> binExp x \<le> binExp y"
proof -
  assume x: "0 < x" and xy: "x \<le> y"
  then have y: "0 < y" by simp
  from binExp_bounds(1) [OF x] binExp_bounds(2) [OF y] xy
  have "(2::real) powi binExp x < 2 powi (binExp y + 1)" by linarith
  then have "binExp x < binExp y + 1" by (rule two_powi_less_imp)
  then show ?thesis by simp
qed

lemma ulp64_pos: "0 < ulp64 x"
  by (simp add: ulp64_def)

lemma fl64_nonneg: "0 \<le> x \<Longrightarrow> 0 \<le> fl64 x"
proof -
  assume x: "0 \<le> x"
  have "of_int 0 \<le> x / ulp64 x" using x ulp64_pos [of x] by simp
  then have "0 \<le> roundHalfEven (x / ulp64 x)" by (rule roundHalfEven_ge)
  then show ?thesis using ulp64_pos [of x] by (simp add: fl64_def)
qed

lemma fl64_mono_pos:
  assumes x: "0 < x" and xy: "x \<le> y"
  shows "fl64 x \<le> fl64 y"
proof -
  from x xy have y: "0 < y" by simp
  define kx where "kx = max (binExp x - 52) (- 1074)"
  define ky where "ky = max (binExp y - 52) (- 1074)"
  have ux: "ulp64 x = 2 powi kx" using x by (simp add: ulp64_def kx_def)
  have uy: "ulp64 y = 2 powi ky" using y by (simp add: ulp64_def ky_def)
  have fx: "fl64 x = of_int (roundHalfEven (x / 2 powi kx)) * 2 powi kx"
    using x by (simp add: fl64_def ux)
  have fy: "fl64 y = of_int (roundHalfEven (y / 2 powi ky)) * 2 powi ky"
    using y by (simp add: fl64_def uy)
  from binExp_mono [OF x xy] have k: "kx \<le> ky" by (simp add: kx_def ky_def)
  show ?thesis
  proof (cases "kx = ky")
    case True
    have "x / 2 powi ky \<le> y / 2 powi ky" using xy by (simp add: divide_right_mono)
    then have "roundHalfEven (x / 2 powi ky) \<le> roundHalfEven (y / 2 powi ky)"
      by (rule roundHalfEven_mono)
    then have "real_of_int (roundHalfEven (x / 2 powi ky)) * 2 powi ky
        \<le> real_of_int (roundHalfEven (y / 2 powi ky)) * 2 powi ky"
      by (simp add: mult_right_mono)
    then show ?thesis by (simp add: fx fy True)
  next
    case False
    with k have lt: "kx < ky" by simp
    then have ky_eq: "ky = binExp y - 52" by (auto simp: ky_def kx_def)
    have kx_ge: "binExp x - 52 \<le> kx" by (simp add: kx_def)
    define B where "B = (2::real) powi (ky + 52)"
    have Bpos: "0 < B" by (simp add: B_def)
    have "2 powi binExp y \<le> y" by (rule binExp_bounds(1) [OF y])
    then have yB: "B \<le> y" by (simp add: B_def ky_eq)
    have "B / 2 powi ky = 2 powi 52" by (simp add: B_def power_int_add)
    also have "\<dots> = real_of_int (2 ^ 52)" by simp
    finally have Bq: "B / 2 powi ky = real_of_int (2 ^ 52)" .
    have "B / 2 powi ky \<le> y / 2 powi ky" using yB by (simp add: divide_right_mono)
    then have "2 ^ 52 \<le> roundHalfEven (y / 2 powi ky)"
      unfolding Bq by (rule roundHalfEven_ge)
    then have "real_of_int (2 ^ 52) \<le> real_of_int (roundHalfEven (y / 2 powi ky))"
      by (rule of_int_le_iff [THEN iffD2])
    then have "real_of_int (2 ^ 52) * 2 powi ky \<le> fl64 y"
      unfolding fy by (rule mult_right_mono) simp
    moreover have "real_of_int (2 ^ 52) * 2 powi ky = B"
      using Bq by (simp add: field_simps)
    ultimately have hi: "B \<le> fl64 y" by simp
    from kx_ge lt have "binExp x + 1 \<le> ky + 52" by simp
    then have "(2::real) powi (binExp x + 1) \<le> B"
      unfolding B_def by (rule power_int_increasing) simp
    with binExp_bounds(2) [OF x] have xB: "x \<le> B" by simp
    define d where "d = nat (ky + 52 - kx)"
    from lt have d: "int d = ky + 52 - kx" by (simp add: d_def)
    have "B / 2 powi kx = 2 powi (ky + 52 - kx)"
      by (simp add: B_def power_int_diff)
    also have "\<dots> = 2 powi (int d)" by (simp only: d)
    also have "\<dots> = real_of_int (2 ^ d)" by simp
    finally have Bx: "B / 2 powi kx = real_of_int (2 ^ d)" .
    have "x / 2 powi kx \<le> B / 2 powi kx" using xB by (simp add: divide_right_mono)
    then have "roundHalfEven (x / 2 powi kx) \<le> 2 ^ d"
      unfolding Bx by (rule roundHalfEven_le)
    then have "real_of_int (roundHalfEven (x / 2 powi kx)) \<le> real_of_int (2 ^ d)"
      by (rule of_int_le_iff [THEN iffD2])
    then have "fl64 x \<le> real_of_int (2 ^ d) * 2 powi kx"
      unfolding fx by (rule mult_right_mono) simp
    moreover have "real_of_int (2 ^ d) * 2 powi kx = B"
      using Bx by (simp add: field_simps)
    ultimately have lo: "fl64 x \<le> B" by simp
    from lo hi show ?thesis by simp
  qed
qed

lemma fl64_mono: "0 \<le> x \<Longrightarrow> x \<le> y \<Longrightarrow> fl64 x \<le> fl64 y"
proof -
  assume x: "0 \<le> x" and xy: "x \<le> y"
  show ?thesis
  proof (cases "x = 0")
    case True
    from x xy have "0 \<le> y" by simp
    then have "0 \<le> fl64 y" by (rule fl64_nonneg)
    with True show ?thesis by (simp add: fl64_def)
  next
    case False
    with x have "0 < x" by simp
    then show ?thesis using xy by (rule fl64_mono_pos)
  qed
qed

lemma fl64_rel_error:
  assumes "2 powi (- 1022) \<le> \<bar>x\<bar>"
  shows "\<bar>fl64 x - x\<bar> \<le> \<bar>x\<bar> / 2 ^ 53"
proof -
  have p: "0 < \<bar>x\<bar>" using assms
    by (meson less_le_trans zero_less_numeral zero_less_power_int)
  then have x0: "x \<noteq> 0" by simp
  define e where "e = binExp \<bar>x\<bar>"
  from binExp_bounds [OF p] have lo: "2 powi e \<le> \<bar>x\<bar>" and hi: "\<bar>x\<bar> < 2 powi (e + 1)"
    by (simp_all add: e_def)
  from assms hi have "(2::real) powi (- 1022) < 2 powi (e + 1)" by linarith
  then have "- 1022 < e + 1" by (rule two_powi_less_imp)
  then have u: "ulp64 x = 2 powi (e - 52)" by (simp add: ulp64_def e_def)
  define n where "n = roundHalfEven (x / ulp64 x)"
  have f: "fl64 x = of_int n * ulp64 x" using x0 by (simp add: fl64_def n_def)
  have "\<bar>of_int n - x / ulp64 x\<bar> \<le> 1 / 2" unfolding n_def by (rule roundHalfEven_error)
  then have "\<bar>of_int n - x / ulp64 x\<bar> * ulp64 x \<le> 1 / 2 * ulp64 x"
    using ulp64_pos [of x] by (simp add: mult_right_mono)
  moreover have "\<bar>of_int n - x / ulp64 x\<bar> * ulp64 x = \<bar>of_int n * ulp64 x - x\<bar>"
  proof -
    have "\<bar>of_int n - x / ulp64 x\<bar> * ulp64 x = \<bar>(of_int n - x / ulp64 x) * ulp64 x\<bar>"
      using ulp64_pos [of x] by (simp add: abs_mult)
    also have "(of_int n - x / ulp64 x) * ulp64 x = of_int n * ulp64 x - x"
      using ulp64_pos [of x] by (simp add: field_simps)
    finally show ?thesis .
  qed
  ultimately have "\<bar>fl64 x - x\<bar> \<le> 1 / 2 * ulp64 x" by (simp add: f)
  also have "1 / 2 * ulp64 x = 2 powi e / 2 ^ 53"
  proof -
    have "(2::real) powi (e - 52) = 2 powi e / 2 powi 52" by (simp add: power_int_diff)
    then show ?thesis by (simp add: u)
  qed
  also have "\<dots> \<le> \<bar>x\<bar> / 2 ^ 53" using lo by (simp add: divide_right_mono)
  finally show ?thesis .
qed

lemma fl64_idem: "fl64 (fl64 x) = fl64 x"
proof (cases "fl64 x = 0")
  case True
  then show ?thesis by (simp add: fl64_def)
next
  case False
  then have x0: "x \<noteq> 0" by (auto simp: fl64_def)
  then have ax: "0 < \<bar>x\<bar>" by simp
  define k where "k = max (binExp \<bar>x\<bar> - 52) (- 1074)"
  define n where "n = roundHalfEven (x / 2 powi k)"
  define y where "y = of_int n * (2::real) powi k"
  have u: "ulp64 x = 2 powi k" by (simp add: ulp64_def k_def)
  have fy: "fl64 x = y" using x0 by (simp add: fl64_def u n_def y_def)
  with False have y0: "y \<noteq> 0" by simp
  then have n0: "n \<noteq> 0" by (auto simp: y_def)
  have ay: "\<bar>y\<bar> = of_int \<bar>n\<bar> * 2 powi k" by (simp add: y_def abs_mult)
  have ay0: "0 < \<bar>y\<bar>" using y0 by simp
  have "binExp \<bar>x\<bar> + 1 \<le> k + 53" by (simp add: k_def)
  then have "(2::real) powi (binExp \<bar>x\<bar> + 1) \<le> 2 powi (k + 53)"
    by (rule power_int_increasing) simp
  with binExp_bounds(2) [OF ax] have "\<bar>x\<bar> \<le> 2 powi (k + 53)" by simp
  then have "\<bar>x\<bar> / 2 powi k \<le> 2 powi (k + 53) / 2 powi k"
    by (simp add: divide_right_mono)
  also have "(2::real) powi (k + 53) / 2 powi k = 2 powi 53" by (simp add: power_int_add)
  also have "\<dots> = real_of_int (2 ^ 53)" by simp
  finally have q: "\<bar>x\<bar> / 2 powi k \<le> real_of_int (2 ^ 53)" .
  have pk: "0 < (2::real) powi k" by simp
  have "\<bar>x / 2 powi k\<bar> = \<bar>x\<bar> / 2 powi k" using pk by (simp add: abs_mult)
  with q have q': "\<bar>x / 2 powi k\<bar> \<le> real_of_int (2 ^ 53)" by simp
  have "x / 2 powi k \<le> real_of_int (2 ^ 53)" using q' by (rule abs_le_D1)
  moreover have "real_of_int (- (2 ^ 53)) \<le> x / 2 powi k"
    using abs_le_D2 [OF q'] by simp
  ultimately have qq: "x / 2 powi k \<le> real_of_int (2 ^ 53)" "real_of_int (- (2 ^ 53)) \<le> x / 2 powi k"
    by simp_all
  have nb: "n \<le> 2 ^ 53" "- (2 ^ 53) \<le> n"
    unfolding n_def using roundHalfEven_le [OF qq(1)] roundHalfEven_ge [OF qq(2)] by simp_all
  then have an: "\<bar>n\<bar> \<le> 2 ^ 53" by simp
  define k' where "k' = max (binExp \<bar>y\<bar> - 52) (- 1074)"
  have u': "ulp64 y = 2 powi k'" by (simp add: ulp64_def k'_def)
  have "\<exists>m. y / 2 powi k' = real_of_int m"
  proof (cases "\<bar>n\<bar> = 2 ^ 53")
    case True
    then have "\<bar>y\<bar> = 2 powi 53 * 2 powi k" by (simp add: ay)
    then have yy: "\<bar>y\<bar> = 2 powi (k + 53)" by (simp add: power_int_add)
    have "binExp \<bar>y\<bar> = k + 53"
    proof (rule binExp_unique [OF ay0])
      show "2 powi (k + 53) \<le> \<bar>y\<bar>" by (simp add: yy)
      have "(2::real) powi (k + 53) < 2 powi (k + 53 + 1)"
        by (rule power_int_strict_increasing) simp_all
      then show "\<bar>y\<bar> < 2 powi (k + 53 + 1)" by (simp add: yy)
    qed
    moreover have "- 1074 \<le> k" by (simp add: k_def)
    ultimately have k': "k' = k + 1" by (simp add: k'_def)
    from True have "even n" by (metis even_abs_add_iff even_add even_numeral even_power zero_less_numeral)
    then obtain m where m: "n = 2 * m" by (auto elim: evenE)
    have "(2::real) powi (k + 1) = 2 powi k * 2" by (simp add: power_int_add)
    then have "y / 2 powi k' = real_of_int m" by (simp add: y_def k' m)
    then show ?thesis ..
  next
    case False
    with an have "\<bar>n\<bar> < 2 ^ 53" by simp
    then have "real_of_int \<bar>n\<bar> < real_of_int (2 ^ 53)" by (rule of_int_less_iff [THEN iffD2])
    then have "real_of_int \<bar>n\<bar> * 2 powi k < real_of_int (2 ^ 53) * 2 powi k"
      by (rule mult_strict_right_mono) simp
    also have "real_of_int (2 ^ 53) * 2 powi k = 2 powi (k + 53)" by (simp add: power_int_add)
    finally have "\<bar>y\<bar> < 2 powi (k + 53)" by (simp add: ay)
    with binExp_bounds(1) [OF ay0] have "(2::real) powi binExp \<bar>y\<bar> < 2 powi (k + 53)" by simp
    then have "binExp \<bar>y\<bar> < k + 53" by (rule two_powi_less_imp)
    moreover have "- 1074 \<le> k" by (simp add: k_def)
    ultimately have le: "k' \<le> k" by (simp add: k'_def)
    define d where "d = nat (k - k')"
    from le have d: "k = k' + int d" by (simp add: d_def)
    have "(2::real) powi k = 2 powi k' * 2 ^ d" by (simp add: d power_int_add)
    then have "y / 2 powi k' = real_of_int (n * 2 ^ d)" by (simp add: y_def)
    then show ?thesis ..
  qed
  then obtain m where m: "y / 2 powi k' = real_of_int m" ..
  have "fl64 y = of_int (roundHalfEven (y / 2 powi k')) * 2 powi k'"
    using y0 by (simp add: fl64_def u')
  also have "\<dots> = real_of_int m * 2 powi k'" by (simp add: m)
  also have "\<dots> = y" using m by (simp add: field_simps)
  finally show ?thesis by (simp add: fy)
qed

lemma fl64_1: "fl64 1 = 1"
  by code_simp

section \<open>Properties of the pricing functions\<close>

lemma sub64_1_0: "sub64 1 0 = 1"
  by (simp add: sub64_def fl64_1)

lemma sub64_mono_right: "b \<le> b' \<Longrightarrow> b' \<le> a \<Longrightarrow> sub64 a b' \<le> sub64 a b"
  unfolding sub64_def by (rule fl64_mono) simp_all

lemma sub64_nonneg: "b \<le> a \<Longrightarrow> 0 \<le> sub64 a b"
  unfolding sub64_def by (rule fl64_nonneg) simp

lemma mul64_nonneg: "0 \<le> a \<Longrightarrow> 0 \<le> b \<Longrightarrow> 0 \<le> mul64 a b"
  unfolding mul64_def by (rule fl64_nonneg) simp

lemma div64_nonneg: "0 \<le> a \<Longrightarrow> 0 \<le> b \<Longrightarrow> 0 \<le> div64 a b"
  unfolding div64_def by (rule fl64_nonneg) simp

lemma mul64_mono_right: "0 \<le> a \<Longrightarrow> 0 \<le> b \<Longrightarrow> b \<le> b' \<Longrightarrow> mul64 a b \<le> mul64 a b'"
  unfolding mul64_def by (rule fl64_mono) (simp_all add: mult_left_mono)

lemma mul64_mono_left: "0 \<le> a \<Longrightarrow> a \<le> a' \<Longrightarrow> 0 \<le> b \<Longrightarrow> mul64 a b \<le> mul64 a' b"
  unfolding mul64_def by (rule fl64_mono) (simp_all add: mult_right_mono)

lemma div64_mono_left: "0 \<le> a \<Longrightarrow> a \<le> a' \<Longrightarrow> 0 < b \<Longrightarrow> div64 a b \<le> div64 a' b"
  unfolding div64_def by (rule fl64_mono) (simp_all add: divide_right_mono)

lemma tokens_fee_mono:
  assumes "0 < p" "0 \<le> s" "fee \<le> fee'" "fee' \<le> 1" "sl \<le> 1"
  shows "calculateTokensForSol64 s p fee' sl \<le> calculateTokensForSol64 s p fee sl"
proof -
  have a: "0 \<le> sub64 1 fee'" using assms by (simp add: sub64_nonneg)
  have b: "sub64 1 fee' \<le> sub64 1 fee" using assms by (simp add: sub64_mono_right)
  have c: "0 \<le> mul64 s (sub64 1 fee')" using assms a by (simp add: mul64_nonneg)
  have d: "mul64 s (sub64 1 fee') \<le> mul64 s (sub64 1 fee)"
    using assms a b by (simp add: mul64_mono_right)
  have e: "0 \<le> div64 (mul64 s (sub64 1 fee')) p" using assms c by (simp add: div64_nonneg)
  have f: "div64 (mul64 s (sub64 1 fee')) p \<le> div64 (mul64 s (sub64 1 fee)) p"
    using assms c d by (simp add: div64_mono_left)
  have g: "0 \<le> sub64 1 sl" using assms by (simp add: sub64_nonneg)
  have "mul64 (div64 (mul64 s (sub64 1 fee')) p) (sub64 1 sl)
      \<le> mul64 (div64 (mul64 s (sub64 1 fee)) p) (sub64 1 sl)"
    using e f g by (rule mul64_mono_left)
  with \<open>0 < p\<close> show ?thesis by (simp add: calculateTokensForSol64_def)
qed

lemma tokens_slippage_mono:
  assumes "0 < p" "0 \<le> s" "fee \<le> 1" "sl \<le> sl'" "sl' \<le> 1"
  shows "calculateTokensForSol64 s p fee sl' \<le> calculateTokensForSol64 s p fee sl"
proof -
  have a: "0 \<le> sub64 1 fee" using assms by (simp add: sub64_nonneg)
  have c: "0 \<le> mul64 s (sub64 1 fee)" using assms a by (simp add: mul64_nonneg)
  have e: "0 \<le> div64 (mul64 s (sub64 1 fee)) p" using assms c by (simp add: div64_nonneg)
  have g: "0 \<le> sub64 1 sl'" using assms by (simp add: sub64_nonneg)
  have h: "sub64 1 sl' \<le> sub64 1 sl" using assms by (simp add: sub64_mono_right)
  have "mul64 (div64 (mul64 s (sub64 1 fee)) p) (sub64 1 sl')
      \<le> mul64 (div64 (mul64 s (sub64 1 fee)) p) (sub64 1 sl)"
    using e g h by (rule mul64_mono_right)
  with \<open>0 < p\<close> show ?thesis by (simp add: calculateTokensForSol64_def)
qed

text \<open>
  C5, as amended. For a positive price the buy side returns
  \<open>solIn * (1 - fee) / price * (1 - slippage)\<close> and the sell side returns
  \<open>tokenAmount * price * (1 - fee) * (1 - slippage)\<close>, each operation rounded to
  binary64 in the order written; for a price that is zero or negative both return
  exactly 0; and for fixed positive price and SOL amount the tokens received never
  increase when the fee, or the slippage, increases within \<open>[0, 1)\<close>.
\<close>

theorem pricing_model:
  "(0 < p \<longrightarrow> calculateTokensForSol64 s p fee sl
                 = mul64 (div64 (mul64 s (sub64 1 fee)) p) (sub64 1 sl))
   \<and> (0 < p \<longrightarrow> calculateSolForTokens64 t p fee sl
                 = mul64 (mul64 (mul64 t p) (sub64 1 fee)) (sub64 1 sl))
   \<and> (p \<le> 0 \<longrightarrow> calculateTokensForSol64 s p fee sl = 0 \<and> calculateSolForTokens64 t p fee sl = 0)
   \<and> (0 < p \<and> 0 < s \<and> 0 \<le> fee \<and> fee \<le> fee' \<and> fee' < 1 \<and> 0 \<le> sl \<and> sl < 1
        \<longrightarrow> calculateTokensForSol64 s p fee' sl \<le> calculateTokensForSol64 s p fee sl)
   \<and> (0 < p \<and> 0 < s \<and> 0 \<le> fee \<and> fee < 1 \<and> 0 \<le> sl \<and> sl \<le> sl' \<and> sl' < 1
        \<longrightarrow> calculateTokensForSol64 s p fee sl' \<le> calculateTokensForSol64 s p fee sl)"
proof (intro conjI impI)
  assume "0 < p"
  then show "calculateTokensForSol64 s p fee sl
                 = mul64 (div64 (mul64 s (sub64 1 fee)) p) (sub64 1 sl)"
    by (simp add: calculateTokensForSol64_def)
next
  assume "0 < p"
  then show "calculateSolForTokens64 t p fee sl
                 = mul64 (mul64 (mul64 t p) (sub64 1 fee)) (sub64 1 sl)"
    by (simp add: calculateSolForTokens64_def)
next
  assume "p \<le> 0"
  then show "calculateTokensForSol64 s p fee sl = 0" by (simp add: calculateTokensForSol64_def)
next
  assume "p \<le> 0"
  then show "calculateSolForTokens64 t p fee sl = 0" by (simp add: calculateSolForTokens64_def)
next
  assume "0 < p \<and> 0 < s \<and> 0 \<le> fee \<and> fee \<le> fee' \<and> fee' < 1 \<and> 0 \<le> sl \<and> sl < 1"
  then show "calculateTokensForSol64 s p fee' sl \<le> calculateTokensForSol64 s p fee sl"
    by (intro tokens_fee_mono) simp_all
next
  assume "0 < p \<and> 0 < s \<and> 0 \<le> fee \<and> fee < 1 \<and> 0 \<le> sl \<and> sl \<le> sl' \<and> sl' < 1"
  then show "calculateTokensForSol64 s p fee sl' \<le> calculateTokensForSol64 s p fee sl"
    by (intro tokens_slippage_mono) simp_all
qed

lemma pricing_samples:
  "calculateTokensForSol64 (1 / 2) 2 (fl64 (25 / 10000)) (fl64 (3 / 100))
     = 272348150590813 / 1125899906842624
   \<and> calculateSolForTokens64 10 2 (fl64 (25 / 10000)) (fl64 (3 / 100))
     = 1361740752954065 / 70368744177664
   \<and> calculateTokensForSol64 (1 / 2) 2 (fl64 (1 / 100)) (fl64 (3 / 100))
     = 4324806722163887 / 18014398509481984
   \<and> calculateTokensForSol64 (1 / 2) 2 (fl64 (25 / 10000)) (fl64 (5 / 100))
     = 8535447193773933 / 36028797018963968"
  by code_simp

lemma pricing_sample_ranges:
  "0 \<le> fl64 (25 / 10000) \<and> fl64 (25 / 10000) \<le> fl64 (1 / 100) \<and> fl64 (1 / 100) < 1
   \<and> 0 \<le> fl64 (3 / 100) \<and> fl64 (3 / 100) \<le> fl64 (5 / 100) \<and> fl64 (5 / 100) < 1
   \<and> fl64 (25 / 10000) < 1 \<and> fl64 (3 / 100) < 1"
  by code_simp

theorem pricing_model_witness:
  "calculateTokensForSol64 (1 / 2) 2 (fl64 (25 / 10000)) (fl64 (3 / 100))
     = 272348150590813 / 1125899906842624
   \<and> calculateSolForTokens64 10 2 (fl64 (25 / 10000)) (fl64 (3 / 100))
     = 1361740752954065 / 70368744177664
   \<and> calculateTokensForSol64 (1 / 2) (- 1) (fl64 (25 / 10000)) (fl64 (3 / 100)) = 0
   \<and> calculateSolForTokens64 10 (- 1) (fl64 (25 / 10000)) (fl64 (3 / 100)) = 0
   \<and> calculateTokensForSol64 (1 / 2) 2 (fl64 (1 / 100)) (fl64 (3 / 100))
       \<le> calculateTokensForSol64 (1 / 2) 2 (fl64 (25 / 10000)) (fl64 (3 / 100))
   \<and> calculateTokensForSol64 (1 / 2) 2 (fl64 (25 / 10000)) (fl64 (5 / 100))
       \<le> calculateTokensForSol64 (1 / 2) 2 (fl64 (25 / 10000)) (fl64 (3 / 100))"
proof -
  have a: "(0::real) < 2" "(0::real) < 1 / 2" "(- 1::real) \<le> 0" by simp_all
  from pricing_model [of 2 "1 / 2" "fl64 (25 / 10000)" "fl64 (3 / 100)" 10 "fl64 (1 / 100)"
      "fl64 (5 / 100)"]
    pricing_model [of "- 1" "1 / 2" "fl64 (25 / 10000)" "fl64 (3 / 100)" 10]
    a pricing_samples pricing_sample_ranges
  show ?thesis by blast
qed

lemma absorbed_fee_samples:
  "0 < fl64 (1 / 10 ^ 17) \<and> fl64 (1 / 10 ^ 17) < 1
   \<and> sub64 1 (fl64 (1 / 10 ^ 17)) = 1
   \<and> calculateTokensForSol64 1 5 (fl64 (1 / 10 ^ 17)) 0 = 3602879701896397 / 18014398509481984
   \<and> calculateTokensForSol64 1 5 0 0 = 3602879701896397 / 18014398509481984
   \<and> calculateTokensForSol64 1 5 0 (fl64 (1 / 10 ^ 17)) = 3602879701896397 / 18014398509481984"
  by code_simp

text \<open>
  The decrease is not strict. A fee of \<open>1e-17\<close> is absorbed by the rounding of
  \<open>1 - fee\<close>, so for 1 SOL at price 5 the tokens received are the same as with no
  fee at all; likewise for a slippage of \<open>1e-17\<close>.
\<close>

theorem pricing_counterexample:
  "0 < fl64 (1 / 10 ^ 17) \<and> fl64 (1 / 10 ^ 17) < 1
   \<and> calculateTokensForSol64 1 5 (fl64 (1 / 10 ^ 17)) 0 = calculateTokensForSol64 1 5 0 0
   \<and> calculateTokensForSol64 1 5 0 (fl64 (1 / 10 ^ 17)) = calculateTokensForSol64 1 5 0 0"
  using absorbed_fee_samples by simp

lemma round_trip_unfold:
  assumes "0 < p" "fl64 s = s"
  shows "calculateSolForTokens64 (calculateTokensForSol64 s p 0 0) p 0 0
           = fl64 (fl64 (s / p) * p)"
  using assms
  by (simp add: calculateTokensForSol64_def calculateSolForTokens64_def sub64_1_0
      mul64_def div64_def fl64_idem)

lemma round_trip_exact:
  assumes "0 < p" "fl64 s = s" "fl64 (s / p) = s / p"
  shows "calculateSolForTokens64 (calculateTokensForSol64 s p 0 0) p 0 0 = s"
  using assms by (simp add: round_trip_unfold)

lemma round_trip_error:
  assumes p: "0 < p" and s: "fl64 s = s"
    and q: "2 powi (- 1022) \<le> \<bar>s / p\<bar>"
    and r: "2 powi (- 1022) \<le> \<bar>fl64 (s / p) * p\<bar>"
  shows "\<bar>calculateSolForTokens64 (calculateTokensForSol64 s p 0 0) p 0 0 - s\<bar>
           \<le> \<bar>s\<bar> * (1 / 2 ^ 52 + 1 / 2 ^ 106)"
proof -
  define t where "t = fl64 (s / p)"
  have e1: "\<bar>t - s / p\<bar> \<le> \<bar>s / p\<bar> / 2 ^ 53"
    unfolding t_def by (rule fl64_rel_error [OF q])
  have "\<bar>t * p - s\<bar> = \<bar>t - s / p\<bar> * p"
  proof -
    have "t * p - s = (t - s / p) * p" using p by (simp add: field_simps)
    then show ?thesis using p by (simp add: abs_mult)
  qed
  also have "\<dots> \<le> \<bar>s / p\<bar> / 2 ^ 53 * p"
    by (rule mult_right_mono [OF e1]) (use p in simp)
  also have "\<dots> = \<bar>s\<bar> / 2 ^ 53" using p by (simp add: abs_divide)
  finally have d1: "\<bar>t * p - s\<bar> \<le> \<bar>s\<bar> / 2 ^ 53" .
  have "\<bar>t * p\<bar> \<le> \<bar>s\<bar> + \<bar>t * p - s\<bar>" by simp
  with d1 have b: "\<bar>t * p\<bar> \<le> \<bar>s\<bar> + \<bar>s\<bar> / 2 ^ 53" by linarith
  have e2: "\<bar>fl64 (t * p) - t * p\<bar> \<le> \<bar>t * p\<bar> / 2 ^ 53"
    using r unfolding t_def by (rule fl64_rel_error)
  have "\<bar>t * p\<bar> / 2 ^ 53 \<le> (\<bar>s\<bar> + \<bar>s\<bar> / 2 ^ 53) / 2 ^ 53"
    using b by (simp add: divide_right_mono)
  with e2 have d2: "\<bar>fl64 (t * p) - t * p\<bar> \<le> (\<bar>s\<bar> + \<bar>s\<bar> / 2 ^ 53) / 2 ^ 53" by linarith
  have "\<bar>fl64 (t * p) - s\<bar> \<le> \<bar>fl64 (t * p) - t * p\<bar> + \<bar>t * p - s\<bar>" by simp
  with d1 d2 have "\<bar>fl64 (t * p) - s\<bar> \<le> (\<bar>s\<bar> + \<bar>s\<bar> / 2 ^ 53) / 2 ^ 53 + \<bar>s\<bar> / 2 ^ 53"
    by linarith
  also have "\<dots> = \<bar>s\<bar> * (1 / 2 ^ 52 + 1 / 2 ^ 106)" by (simp add: field_simps)
  finally show ?thesis using p s by (simp add: round_trip_unfold t_def)
qed

text \<open>
  C9, as amended. With zero fee and zero slippage, selling at price \<open>p > 0\<close> the
  tokens bought for \<open>s\<close> SOL at the same price returns exactly \<open>s\<close> when
  the quotient \<open>s / p\<close> is itself a binary64 value; in general the division and
  the multiplication each round once, and within the normal range of binary64 the
  amount returned differs from \<open>s\<close> by at most \<open>\<bar>s\<bar> * (2^-52 + 2^-106)\<close>.
\<close>

theorem buy_sell_round_trip:
  "(0 < p \<and> double64 s \<and> double64 (s / p)
      \<longrightarrow> calculateSolForTokens64 (calculateTokensForSol64 s p 0 0) p 0 0 = s)
   \<and> (0 < p \<and> double64 s \<and> normal64 (s / p) \<and> normal64 (fl64 (s / p) * p)
      \<longrightarrow> \<bar>calculateSolForTokens64 (calculateTokensForSol64 s p 0 0) p 0 0 - s\<bar>
            \<le> \<bar>s\<bar> * (1 / 2 ^ 52 + 1 / 2 ^ 106))"
proof (intro conjI impI)
  assume "0 < p \<and> double64 s \<and> double64 (s / p)"
  then show "calculateSolForTokens64 (calculateTokensForSol64 s p 0 0) p 0 0 = s"
    unfolding double64_def by (intro round_trip_exact) blast+
next
  assume "0 < p \<and> double64 s \<and> normal64 (s / p) \<and> normal64 (fl64 (s / p) * p)"
  then show "\<bar>calculateSolForTokens64 (calculateTokensForSol64 s p 0 0) p 0 0 - s\<bar>
            \<le> \<bar>s\<bar> * (1 / 2 ^ 52 + 1 / 2 ^ 106)"
    unfolding double64_def normal64_def by (intro round_trip_error) blast+
qed

lemma one_le_maxDouble: "1 \<le> maxDouble"
proof -
  have "(1::real) \<le> (2 ^ 53 - 1) * 1" by simp
  also have "\<dots> \<le> (2 ^ 53 - 1) * 2 ^ 971" by (rule mult_left_mono) simp_all
  finally show ?thesis by (simp add: maxDouble_def)
qed

lemma round_trip_samples:
  "fl64 1 = 1 \<and> fl64 (1 / 4) = 1 / 4 \<and> fl64 (3 / 4) = 3 / 4 \<and> fl64 (3 / 16) = 3 / 16
   \<and> fl64 (1 / 49) = 5882252574524729 / 288230376151711744
   \<and> calculateSolForTokens64 (calculateTokensForSol64 1 49 0 0) 49 0 0
       = 9007199254740991 / 9007199254740992
   \<and> calculateSolForTokens64 (calculateTokensForSol64 (3 / 4) 4 0 0) 4 0 0 = 3 / 4"
  by code_simp

lemma double64_samples: "double64 1 \<and> double64 (3 / 4) \<and> double64 (3 / 4 / 4)"
  using round_trip_samples one_le_maxDouble by (simp add: double64_def)

lemma normal64_samples: "normal64 (1 / 49) \<and> normal64 (fl64 (1 / 49) * 49)"
proof -
  have "(2::real) powi (- 1022) \<le> 2 powi (- 6)" by (rule power_int_increasing) simp_all
  also have "\<dots> = 1 / 64" by (simp add: power_int_minus_divide)
  finally have lo: "(2::real) powi (- 1022) \<le> 1 / 64" .
  have v: "fl64 (1 / 49) = 5882252574524729 / 288230376151711744"
    using round_trip_samples by blast
  show ?thesis using lo one_le_maxDouble by (simp add: normal64_def v)
qed

theorem buy_sell_round_trip_witness:
  "calculateSolForTokens64 (calculateTokensForSol64 (3 / 4) 4 0 0) 4 0 0 = 3 / 4
   \<and> \<bar>calculateSolForTokens64 (calculateTokensForSol64 1 49 0 0) 49 0 0 - 1\<bar>
       \<le> \<bar>1\<bar> * (1 / 2 ^ 52 + 1 / 2 ^ 106)
   \<and> calculateSolForTokens64 (calculateTokensForSol64 1 49 0 0) 49 0 0
       = 9007199254740991 / 9007199254740992"
proof -
  have a: "(0::real) < 4" "(0::real) < 49" by simp_all
  from buy_sell_round_trip [of 4 "3 / 4"] buy_sell_round_trip [of 49 1]
    a double64_samples normal64_samples round_trip_samples
  show ?thesis by blast
qed

text \<open>
  The round trip is not the identity: 1 SOL at price 49 comes back as
  \<open>0.9999999999999999\<close>, one unit in the last place below 1.
\<close>

theorem round_trip_counterexample:
  "calculateSolForTokens64 (calculateTokensForSol64 1 49 0 0) 49 0 0
     = 9007199254740991 / 9007199254740992
   \<and> calculateSolForTokens64 (calculateTokensForSol64 1 49 0 0) 49 0 0 \<noteq> 1"
  using round_trip_samples by simp

section \<open>Properties of single ledger operations\<close>

lemma find_mint_None:
  "(find (\<lambda>p. tokenMintAddress p = m) ps = None) = (\<forall>p \<in> set ps. tokenMintAddress p \<noteq> m)"
  by (auto simp: find_None_iff)

lemma canBuy_iff:
  "canBuy cfg st m =
     (TRADE_SIZE_SOL cfg \<le> virtualBudget st
      \<and> length (activePositions st) < MAX_CONCURRENT_POSITIONS cfg
      \<and> (\<forall>p \<in> set (activePositions st). tokenMintAddress p \<noteq> m))"
  by (auto simp: canBuy_def list_ex_iff)

lemma simulateBuy_rejects:
  "\<not> canBuy cfg st m \<Longrightarrow> simulateBuy cfg m pool price rnd now st = (None, st)"
  by (simp add: simulateBuy_def)

lemma simulateBuy_success:
  assumes "simulateBuy cfg m pool price rnd now st = (Some pos, st')"
  shows "canBuy cfg st m"
    and "virtualBudget st' = virtualBudget st - TRADE_SIZE_SOL cfg"
    and "activePositions st' = activePositions st @ [pos]"
    and "completedTrades st' = completedTrades st"
    and "tokenMintAddress pos = m" and "poolId pos = pool"
    and "buyPrice pos = price" and "peakPrice pos = price"
    and "tradeSizeSol pos = TRADE_SIZE_SOL cfg"
    and "0 < tokenAmount pos"
  using assms
  by (auto simp: simulateBuy_def Let_def split: if_splits)

lemma simulateBuy_failure:
  "simulateBuy cfg m pool price rnd now st = (None, st') \<Longrightarrow> st' = st"
  by (auto simp: simulateBuy_def Let_def split: if_splits)

text \<open>
  C3. \<open>simulateBuy\<close> returns \<open>null\<close> and leaves the state alone whenever \<open>canBuy\<close> is
  false at the call, that is whenever the budget is below the trade size, or the number
  of open positions has reached the maximum, or a position for the mint is open. A
  successful buy implies that all three admission conditions held; it lowers the budget
  by exactly the trade size and appends one new position for the mint, with buy price
  and peak price equal to the reference price.
\<close>

theorem simulateBuy_no_bypass:
  "(canBuy cfg st m \<longleftrightarrow>
      \<not> (virtualBudget st < TRADE_SIZE_SOL cfg
         \<or> length (activePositions st) \<ge> MAX_CONCURRENT_POSITIONS cfg
         \<or> (\<exists>p \<in> set (activePositions st). tokenMintAddress p = m)))
   \<and> (\<not> canBuy cfg st m \<longrightarrow> simulateBuy cfg m pool price rnd now st = (None, st))
   \<and> (\<forall>pos st'. simulateBuy cfg m pool price rnd now st = (Some pos, st') \<longrightarrow>
         canBuy cfg st m
         \<and> TRADE_SIZE_SOL cfg \<le> virtualBudget st
         \<and> length (activePositions st) < MAX_CONCURRENT_POSITIONS cfg
         \<and> (\<forall>p \<in> set (activePositions st). tokenMintAddress p \<noteq> m)
         \<and> virtualBudget st' = virtualBudget st - TRADE_SIZE_SOL cfg
         \<and> activePositions st' = activePositions st @ [pos]
         \<and> tokenMintAddress pos = m
         \<and> poolId pos = pool
         \<and> buyPrice pos = price
         \<and> peakPrice pos = price)"
proof (intro conjI allI impI)
  show "canBuy cfg st m \<longleftrightarrow>
      \<not> (virtualBudget st < TRADE_SIZE_SOL cfg
         \<or> length (activePositions st) \<ge> MAX_CONCURRENT_POSITIONS cfg
         \<or> (\<exists>p \<in> set (activePositions st). tokenMintAddress p = m))"
    by (auto simp: canBuy_iff)
next
  assume "\<not> canBuy cfg st m"
  then show "simulateBuy cfg m pool price rnd now st = (None, st)"
    by (rule simulateBuy_rejects)
next
  fix pos st'
  assume ok: "simulateBuy cfg m pool price rnd now st = (Some pos, st')"
  from simulateBuy_success(1) [OF ok] have adm: "canBuy cfg st m" .
  then show "canBuy cfg st m" .
  from adm show "TRADE_SIZE_SOL cfg \<le> virtualBudget st" by (simp add: canBuy_iff)
  from adm show "length (activePositions st) < MAX_CONCURRENT_POSITIONS cfg"
    by (simp add: canBuy_iff)
  from adm show "\<forall>p \<in> set (activePositions st). tokenMintAddress p \<noteq> m"
    by (simp add: canBuy_iff)
  show "virtualBudget st' = virtualBudget st - TRADE_SIZE_SOL cfg"
    by (rule simulateBuy_success(2) [OF ok])
  show "activePositions st' = activePositions st @ [pos]"
    by (rule simulateBuy_success(3) [OF ok])
  show "tokenMintAddress pos = m" by (rule simulateBuy_success(5) [OF ok])
  show "poolId pos = pool" by (rule simulateBuy_success(6) [OF ok])
  show "buyPrice pos = price" by (rule simulateBuy_success(7) [OF ok])
  show "peakPrice pos = price" by (rule simulateBuy_success(8) [OF ok])
qed

theorem simulateBuy_no_bypass_witness:
  "simulateBuy defaultConfig ''MintA'' ''PoolA'' 2 (1 / 2) 0 (initialState defaultConfig)
     = (Some mintA_position, afterFirstBuy)
   \<and> canBuy defaultConfig (initialState defaultConfig) ''MintA''
   \<and> virtualBudget afterFirstBuy
       = virtualBudget (initialState defaultConfig) - TRADE_SIZE_SOL defaultConfig
   \<and> activePositions afterFirstBuy
       = activePositions (initialState defaultConfig) @ [mintA_position]
   \<and> peakPrice mintA_position = 2
   \<and> \<not> canBuy defaultConfig afterFirstBuy ''MintA''
   \<and> simulateBuy defaultConfig ''MintA'' ''PoolB'' 3 (1 / 2) 1000 afterFirstBuy
       = (None, afterFirstBuy)"
proof -
  have bought:
    "simulateBuy defaultConfig ''MintA'' ''PoolA'' 2 (1 / 2) 0 (initialState defaultConfig)
       = (Some mintA_position, afterFirstBuy)"
    by (simp add: simulateBuy_def canBuy_def initialState_def defaultConfig_def
        calculateTokensForSol_def Let_def mintA_position_def afterFirstBuy_def)
  have held: "\<not> canBuy defaultConfig afterFirstBuy ''MintA''"
    by (simp add: canBuy_def defaultConfig_def mintA_position_def afterFirstBuy_def)
  show ?thesis
    using simulateBuy_no_bypass [of defaultConfig "initialState defaultConfig" "''MintA''"
        "''PoolA''" 2 "1 / 2" 0]
      simulateBuy_no_bypass [of defaultConfig afterFirstBuy "''MintA''" "''PoolB''" 3 "1 / 2" 1000]
      bought held
    by blast
qed

lemma simulateSell_null: "simulateSell cfg None price why rnd now st = (None, st)"
  by (simp add: simulateSell_def)

lemma simulateSell_no_match:
  "\<forall>p \<in> set (activePositions st). tokenMintAddress p \<noteq> tokenMintAddress pos
   \<Longrightarrow> simulateSell cfg (Some pos) price why rnd now st = (None, st)"
  by (simp add: simulateSell_def find_mint_None)

lemma simulateSell_negative:
  "calculateSolForTokens (tokenAmount pos) price (RAYDIUM_FEE_PERCENT cfg)
       (rnd * (3 / 100 - 1 / 100) + 1 / 100) < 0
   \<Longrightarrow> simulateSell cfg (Some pos) price why rnd now st = (None, st)"
  by (simp add: simulateSell_def Let_def)

lemma simulateSell_failure:
  "fst (simulateSell cfg arg price why rnd now st) = None
   \<Longrightarrow> snd (simulateSell cfg arg price why rnd now st) = st"
  by (auto simp: simulateSell_def Let_def split: option.splits if_splits)

lemma simulateSell_success:
  assumes "\<exists>p \<in> set (activePositions st). tokenMintAddress p = tokenMintAddress pos"
    and "proceeds = calculateSolForTokens (tokenAmount pos) price (RAYDIUM_FEE_PERCENT cfg)
           (rnd * (3 / 100 - 1 / 100) + 1 / 100)"
    and "0 \<le> proceeds"
  shows "simulateSell cfg (Some pos) price why rnd now st =
           (Some (proceeds, pos),
            st\<lparr> virtualBudget := virtualBudget st + proceeds,
                completedTrades := completedTrades st @
                  [\<lparr> soldFields = pos, sellPrice = price, solProceeds = proceeds,
                     exitReason = why, sellTimestamp = now,
                     profitOrLoss = proceeds - tradeSizeSol pos \<rparr>],
                activePositions :=
                  filter (\<lambda>p. tokenMintAddress p \<noteq> tokenMintAddress pos) (activePositions st) \<rparr>)"
proof -
  from assms(1)
  have "find (\<lambda>p. tokenMintAddress p = tokenMintAddress pos) (activePositions st) \<noteq> None"
    by (simp add: find_mint_None)
  with assms(2,3) show ?thesis
    by (simp add: simulateSell_def Let_def)
qed

text \<open>
  C7. \<open>simulateSell\<close> returns \<open>null\<close> when no open position has the mint of the
  position passed in, and when the computed proceeds are negative (zero proceeds are
  accepted); whenever it returns \<open>null\<close> the budget, the open positions and the
  completed-trades log are unchanged. When a position with the mint is open and the
  proceeds are not negative, the budget grows by exactly the proceeds, every position
  with that mint is removed, and the one completed trade that is logged has profit or
  loss equal to the proceeds minus the committed cost of the position passed in.
\<close>

theorem simulateSell_contract:
  assumes "proceeds = calculateSolForTokens (tokenAmount pos) price (RAYDIUM_FEE_PERCENT cfg)
             (rnd * (3 / 100 - 1 / 100) + 1 / 100)"
  shows
    "((\<forall>p \<in> set (activePositions st). tokenMintAddress p \<noteq> tokenMintAddress pos)
        \<longrightarrow> simulateSell cfg (Some pos) price why rnd now st = (None, st))
     \<and> (proceeds < 0 \<longrightarrow> simulateSell cfg (Some pos) price why rnd now st = (None, st))
     \<and> (fst (simulateSell cfg arg price why rnd now st) = None
          \<longrightarrow> snd (simulateSell cfg arg price why rnd now st) = st)
     \<and> ((\<exists>p \<in> set (activePositions st). tokenMintAddress p = tokenMintAddress pos)
          \<and> 0 \<le> proceeds
          \<longrightarrow> (\<exists>t. simulateSell cfg (Some pos) price why rnd now st =
                     (Some (proceeds, pos),
                      st\<lparr> virtualBudget := virtualBudget st + proceeds,
                          completedTrades := completedTrades st @ [t],
                          activePositions :=
                            filter (\<lambda>p. tokenMintAddress p \<noteq> tokenMintAddress pos)
                              (activePositions st) \<rparr>)
                   \<and> soldFields t = pos \<and> sellPrice t = price \<and> solProceeds t = proceeds
                   \<and> exitReason t = why
                   \<and> profitOrLoss t = proceeds - tradeSizeSol pos))"
proof (intro conjI impI)
  assume "\<forall>p \<in> set (activePositions st). tokenMintAddress p \<noteq> tokenMintAddress pos"
  then show "simulateSell cfg (Some pos) price why rnd now st = (None, st)"
    by (rule simulateSell_no_match)
next
  assume "proceeds < 0"
  with assms show "simulateSell cfg (Some pos) price why rnd now st = (None, st)"
    by (simp add: simulateSell_negative)
next
  assume "fst (simulateSell cfg arg price why rnd now st) = None"
  then show "snd (simulateSell cfg arg price why rnd now st) = st"
    by (rule simulateSell_failure)
next
  assume "(\<exists>p \<in> set (activePositions st). tokenMintAddress p = tokenMintAddress pos)
          \<and> 0 \<le> proceeds"
  then have m: "\<exists>p \<in> set (activePositions st). tokenMintAddress p = tokenMintAddress pos"
    and nn: "0 \<le> proceeds" by simp_all
  show "\<exists>t. simulateSell cfg (Some pos) price why rnd now st =
                     (Some (proceeds, pos),
                      st\<lparr> virtualBudget := virtualBudget st + proceeds,
                          completedTrades := completedTrades st @ [t],
                          activePositions :=
                            filter (\<lambda>p. tokenMintAddress p \<noteq> tokenMintAddress pos)
                              (activePositions st) \<rparr>)
                   \<and> soldFields t = pos \<and> sellPrice t = price \<and> solProceeds t = proceeds
                   \<and> exitReason t = why
                   \<and> profitOrLoss t = proceeds - tradeSizeSol pos"
    using simulateSell_success [OF m assms nn, of why now]
    by (intro exI [of _ "\<lparr> soldFields = pos, sellPrice = price, solProceeds = proceeds,
                     exitReason = why, sellTimestamp = now,
                     profitOrLoss = proceeds - tradeSizeSol pos \<rparr>"]) simp
qed

theorem simulateSell_contract_witness:
  "(\<exists>t. simulateSell defaultConfig (Some mintA_position) 3 ''time_limit'' (1 / 2) 7000 afterFirstBuy =
          (Some (2270047059 / 3200000000, mintA_position),
           afterFirstBuy\<lparr> virtualBudget := virtualBudget afterFirstBuy + 2270047059 / 3200000000,
               completedTrades := completedTrades afterFirstBuy @ [t],
               activePositions :=
                 filter (\<lambda>p. tokenMintAddress p \<noteq> tokenMintAddress mintA_position)
                   (activePositions afterFirstBuy) \<rparr>)
        \<and> profitOrLoss t = 2270047059 / 3200000000 - tradeSizeSol mintA_position)
   \<and> simulateSell defaultConfig (Some mintZ_position) 3 ''time_limit'' (1 / 2) 7000 afterFirstBuy
        = (None, afterFirstBuy)
   \<and> simulateSell defaultConfig (Some mintA_negative) 3 ''time_limit'' (1 / 2) 7000 afterFirstBuy
        = (None, afterFirstBuy)"
proof -
  have pr: "2270047059 / 3200000000 =
      calculateSolForTokens (tokenAmount mintA_position) 3 (RAYDIUM_FEE_PERCENT defaultConfig)
        (1 / 2 * (3 / 100 - 1 / 100) + 1 / 100)"
    by (simp add: calculateSolForTokens_def mintA_position_def defaultConfig_def)
  have held: "\<exists>p \<in> set (activePositions afterFirstBuy).
      tokenMintAddress p = tokenMintAddress mintA_position"
    by (simp add: afterFirstBuy_def)
  have nn: "(0::real) \<le> 2270047059 / 3200000000" by simp
  have absent: "\<forall>p \<in> set (activePositions afterFirstBuy).
      tokenMintAddress p \<noteq> tokenMintAddress mintZ_position"
    by (simp add: afterFirstBuy_def mintA_position_def mintZ_position_def)
  have neg: "calculateSolForTokens (tokenAmount mintA_negative) 3 (RAYDIUM_FEE_PERCENT defaultConfig)
        (1 / 2 * (3 / 100 - 1 / 100) + 1 / 100) < 0"
    by (simp add: calculateSolForTokens_def mintA_negative_def defaultConfig_def)
  show ?thesis
    using simulateSell_contract [OF pr, where st = afterFirstBuy and why = "''time_limit''"
        and now = 7000 and arg = None]
      simulateSell_contract [OF refl, where pos = mintZ_position and st = afterFirstBuy
        and cfg = defaultConfig and price = 3 and rnd = "1 / 2" and why = "''time_limit''"
        and now = 7000 and arg = None]
      simulateSell_contract [OF refl, where pos = mintA_negative and st = afterFirstBuy
        and cfg = defaultConfig and price = 3 and rnd = "1 / 2" and why = "''time_limit''"
        and now = 7000 and arg = None]
      held nn absent neg
    by blast
qed

text \<open>
  C10. A restart does not re-commit the cost of the restored positions. For a
  configured budget that is not negative and every loaded position list, the budget
  after \<open>initializeTrading\<close> is the full \<open>VIRTUAL_BUDGET_SOL\<close>, whatever the loaded
  positions cost, and \<open>getVirtualBudget\<close> returns it; the positions are the loaded
  ones. So a buy of a new mint is admitted against the whole initial budget as long as
  the position limit leaves room.
\<close>

theorem restart_keeps_full_budget:
  "0 \<le> VIRTUAL_BUDGET_SOL cfg \<Longrightarrow>
     getVirtualBudget (initializeTrading loaded (initialState cfg)) = VIRTUAL_BUDGET_SOL cfg
     \<and> getActivePositions (initializeTrading loaded (initialState cfg)) = loaded
     \<and> (TRADE_SIZE_SOL cfg \<le> VIRTUAL_BUDGET_SOL cfg
          \<and> length loaded < MAX_CONCURRENT_POSITIONS cfg
          \<and> (\<forall>p \<in> set loaded. tokenMintAddress p \<noteq> m)
          \<longrightarrow> canBuy cfg (initializeTrading loaded (initialState cfg)) m)"
  by (cases loaded)
     (auto simp: initializeTrading_def initialState_def getVirtualBudget_def
        getActivePositions_def canBuy_iff Let_def)

theorem restart_keeps_full_budget_witness:
  "0 \<le> VIRTUAL_BUDGET_SOL defaultConfig
   \<and> getVirtualBudget (initializeTrading [mintA_position] (initialState defaultConfig))
       = VIRTUAL_BUDGET_SOL defaultConfig
   \<and> VIRTUAL_BUDGET_SOL defaultConfig = 5
   \<and> getActivePositions (initializeTrading [mintA_position] (initialState defaultConfig))
       = [mintA_position]
   \<and> canBuy defaultConfig (initializeTrading [mintA_position] (initialState defaultConfig)) ''MintB''"
proof -
  have b: "0 \<le> VIRTUAL_BUDGET_SOL defaultConfig" "VIRTUAL_BUDGET_SOL defaultConfig = 5"
    by (simp_all add: defaultConfig_def)
  have adm: "TRADE_SIZE_SOL defaultConfig \<le> VIRTUAL_BUDGET_SOL defaultConfig
      \<and> length [mintA_position] < MAX_CONCURRENT_POSITIONS defaultConfig
      \<and> (\<forall>p \<in> set [mintA_position]. tokenMintAddress p \<noteq> ''MintB'')"
    by (simp add: defaultConfig_def mintA_position_def)
  show ?thesis
    using restart_keeps_full_budget [OF b(1), of "[mintA_position]" "''MintB''"] b adm
    by blast
qed

section \<open>Invariants over sequences of ledger operations\<close>

lemma length_raisePeak: "length (raisePeak m c ps) = length ps"
  by (induction ps) auto

lemma raisePeak_pointwise:
  "list_all2 (\<lambda>p p'. p' = p \<or> (peakPrice p < c \<and> tokenMintAddress p = m \<and> p' = p\<lparr>peakPrice := c\<rparr>))
     ps (raisePeak m c ps)"
  by (induction ps) (auto simp: list_all2_refl)

lemma raisePeak_peak_ok:
  "\<forall>p \<in> set ps. buyPrice p \<le> peakPrice p
   \<Longrightarrow> \<forall>p \<in> set (raisePeak m c ps). buyPrice p \<le> peakPrice p"
  by (induction ps) auto

lemma applyOp_budgetOk: "budgetOk cfg st \<Longrightarrow> budgetOk cfg (applyOp cfg op st)"
proof (cases op)
  case (Buy m pool price rnd now)
  assume inv: "budgetOk cfg st"
  show ?thesis
  proof (cases "fst (simulateBuy cfg m pool price rnd now st)")
    case None
    then have "simulateBuy cfg m pool price rnd now st
        = (None, snd (simulateBuy cfg m pool price rnd now st))"
      by (metis prod.collapse)
    from simulateBuy_failure [OF this] inv Buy show ?thesis by simp
  next
    case (Some pos)
    then have ok: "simulateBuy cfg m pool price rnd now st
        = (Some pos, snd (simulateBuy cfg m pool price rnd now st))"
      by (metis prod.collapse)
    from simulateBuy_success(1-3) [OF ok] Buy show ?thesis
      by (simp add: budgetOk_def canBuy_iff)
  qed
next
  case (Sell arg price why rnd now)
  assume inv: "budgetOk cfg st"
  have "length (filter P (activePositions st)) \<le> MAX_CONCURRENT_POSITIONS cfg" for P
    using inv by (auto simp: budgetOk_def intro: order_trans [OF length_filter_le])
  with inv Sell show ?thesis
    by (auto simp: budgetOk_def simulateSell_def Let_def split: option.splits)
next
  case (UpdatePeak m price)
  assume "budgetOk cfg st"
  with UpdatePeak show ?thesis
    by (simp add: budgetOk_def updatePeakPrice_def length_raisePeak)
qed

lemma runOps_budgetOk: "budgetOk cfg st \<Longrightarrow> budgetOk cfg (runOps cfg ops st)"
  unfolding runOps_def by (induction ops arbitrary: st) (simp_all add: applyOp_budgetOk)

lemma applyOp_peakOk: "peakOk st \<Longrightarrow> peakOk (applyOp cfg op st)"
proof (cases op)
  case (Buy m pool price rnd now)
  assume inv: "peakOk st"
  show ?thesis
  proof (cases "fst (simulateBuy cfg m pool price rnd now st)")
    case None
    then have "simulateBuy cfg m pool price rnd now st
        = (None, snd (simulateBuy cfg m pool price rnd now st))"
      by (metis prod.collapse)
    from simulateBuy_failure [OF this] inv Buy show ?thesis by simp
  next
    case (Some pos)
    then have ok: "simulateBuy cfg m pool price rnd now st
        = (Some pos, snd (simulateBuy cfg m pool price rnd now st))"
      by (metis prod.collapse)
    from simulateBuy_success(3,7,8) [OF ok] inv Buy show ?thesis
      by (simp add: peakOk_def)
  qed
next
  case (Sell arg price why rnd now)
  assume "peakOk st"
  with Sell show ?thesis
    by (auto simp: peakOk_def list_all_iff simulateSell_def Let_def split: option.splits)
next
  case (UpdatePeak m price)
  assume "peakOk st"
  with UpdatePeak raisePeak_peak_ok [of "activePositions st" m price] show ?thesis
    by (simp add: peakOk_def list_all_iff updatePeakPrice_def)
qed

lemma runOps_peakOk: "peakOk st \<Longrightarrow> peakOk (runOps cfg ops st)"
  unfolding runOps_def by (induction ops arbitrary: st) (simp_all add: applyOp_peakOk)

text \<open>
  C4. From the initial state (the configured budget, which is taken to be not
  negative, and no position), after any finite sequence of buys, sells and peak
  updates, whether each succeeds or is rejected, the budget is not negative and the
  number of open positions is at most the configured maximum.
\<close>

theorem budget_and_count_invariant:
  "0 \<le> VIRTUAL_BUDGET_SOL cfg \<Longrightarrow>
     0 \<le> virtualBudget (runOps cfg ops (initialState cfg))
     \<and> length (activePositions (runOps cfg ops (initialState cfg)))
         \<le> MAX_CONCURRENT_POSITIONS cfg"
proof -
  assume "0 \<le> VIRTUAL_BUDGET_SOL cfg"
  then have "budgetOk cfg (initialState cfg)"
    by (simp add: budgetOk_def initialState_def)
  then have "budgetOk cfg (runOps cfg ops (initialState cfg))"
    by (rule runOps_budgetOk)
  then show ?thesis by (simp add: budgetOk_def)
qed

lemma exampleOps_eval:
  "runOps defaultConfig exampleOps (initialState defaultConfig)
     = afterFirstBuy\<lparr>activePositions := [mintA_position\<lparr>peakPrice := 3\<rparr>]\<rparr>"
  by (simp add: runOps_def exampleOps_def simulateBuy_def canBuy_def initialState_def
      defaultConfig_def calculateTokensForSol_def Let_def mintA_position_def afterFirstBuy_def
      updatePeakPrice_def)

lemma closingOps_eval:
  "runOps defaultConfig closingOps (initialState defaultConfig)
     = \<lparr> virtualBudget = 9 / 2 + 2270047059 / 3200000000, activePositions = [],
         completedTrades =
           [\<lparr> soldFields = mintA_position\<lparr>peakPrice := 3\<rparr>, sellPrice = 3,
              solProceeds = 2270047059 / 3200000000, exitReason = ''time_limit'',
              sellTimestamp = 7000, profitOrLoss = 2270047059 / 3200000000 - 1 / 2 \<rparr>] \<rparr>"
  unfolding closingOps_def runOps_def fold_append comp_def
  unfolding exampleOps_eval [unfolded runOps_def]
  by (simp add: simulateSell_def defaultConfig_def calculateSolForTokens_def Let_def
      mintA_position_def afterFirstBuy_def)

theorem budget_and_count_invariant_witness:
  "0 \<le> VIRTUAL_BUDGET_SOL defaultConfig
   \<and> runOps defaultConfig closingOps (initialState defaultConfig)
       = \<lparr> virtualBudget = 9 / 2 + 2270047059 / 3200000000, activePositions = [],
           completedTrades =
             [\<lparr> soldFields = mintA_position\<lparr>peakPrice := 3\<rparr>, sellPrice = 3,
                solProceeds = 2270047059 / 3200000000, exitReason = ''time_limit'',
                sellTimestamp = 7000, profitOrLoss = 2270047059 / 3200000000 - 1 / 2 \<rparr>] \<rparr>
   \<and> 0 \<le> virtualBudget (runOps defaultConfig closingOps (initialState defaultConfig))
   \<and> length (activePositions (runOps defaultConfig closingOps (initialState defaultConfig)))
       \<le> MAX_CONCURRENT_POSITIONS defaultConfig"
proof -
  have b: "0 \<le> VIRTUAL_BUDGET_SOL defaultConfig" by (simp add: defaultConfig_def)
  from budget_and_count_invariant [OF b, of closingOps] b closingOps_eval
  show ?thesis by blast
qed

lemma raisePeak_mono:
  "list_all2 (\<lambda>p p'. peakPrice p \<le> peakPrice p' \<and> p'\<lparr>peakPrice := peakPrice p\<rparr> = p)
     ps (raisePeak m c ps)"
  by (induction ps) (auto simp: list_all2_refl)

lemma updates_mono:
  "list_all2 (\<lambda>p p'. peakPrice p \<le> peakPrice p' \<and> p'\<lparr>peakPrice := peakPrice p\<rparr> = p)
     (activePositions st)
     (activePositions (runOps cfg (map (\<lambda>(m, c). UpdatePeak m c) us) st))"
proof (induction us arbitrary: st)
  case Nil
  show ?case by (simp add: runOps_def list_all2_refl)
next
  case (Cons u us)
  obtain m c where u: "u = (m, c)" by (cases u)
  let ?R = "\<lambda>p p'. peakPrice p \<le> peakPrice p' \<and> p'\<lparr>peakPrice := peakPrice p\<rparr> = p"
  have tr: "?R a b \<Longrightarrow> ?R b d \<Longrightarrow> ?R a d" for a b d :: position
  proof -
    assume ab: "?R a b" and bd: "?R b d"
    have "d\<lparr>peakPrice := peakPrice a\<rparr> = (d\<lparr>peakPrice := peakPrice b\<rparr>)\<lparr>peakPrice := peakPrice a\<rparr>"
      by simp
    with ab bd show "?R a d" by auto
  qed
  have step: "list_all2 ?R (activePositions st) (activePositions (updatePeakPrice m c st))"
    by (simp add: updatePeakPrice_def raisePeak_mono)
  have rest: "list_all2 ?R (activePositions (updatePeakPrice m c st))
      (activePositions (runOps cfg (map (\<lambda>(m, c). UpdatePeak m c) us) (updatePeakPrice m c st)))"
    by (rule Cons.IH)
  have "list_all2 ?R (activePositions st)
      (activePositions (runOps cfg (map (\<lambda>(m, c). UpdatePeak m c) us) (updatePeakPrice m c st)))"
    by (rule list_all2_trans [OF tr step rest])
  then show ?case by (simp add: u runOps_def)
qed

lemma simulateSell_subset:
  "set (activePositions (snd (simulateSell cfg arg price why rnd now st)))
     \<subseteq> set (activePositions st)"
  by (auto simp: simulateSell_def Let_def split: option.splits)

text \<open>
  C6. Every open position of every ledger state reached from the initial state by buys,
  sells and peak updates has a peak price that is at least its buy price. A successful
  buy appends a position whose buy price and peak price are both the reference price.
  \<open>updatePeakPrice\<close> leaves every position as it is, or raises the peak of a position
  of the given mint to the new price, and that only when the new price strictly
  exceeds the stored peak; so over any sequence of updates every peak only grows and
  nothing else of a position changes. A sell only removes positions, and
  \<open>initializeTrading\<close> keeps the positions or replaces them by the loaded ones.
\<close>

theorem peak_never_below_buy:
  "(\<forall>p \<in> set (activePositions (runOps cfg ops (initialState cfg))). buyPrice p \<le> peakPrice p)
   \<and> (\<forall>pos st'. simulateBuy cfg m pool price rnd now st = (Some pos, st') \<longrightarrow>
         buyPrice pos = price \<and> peakPrice pos = price
         \<and> activePositions st' = activePositions st @ [pos])
   \<and> list_all2 (\<lambda>p p'. p' = p \<or> (peakPrice p < c \<and> tokenMintAddress p = m'
                                  \<and> p' = p\<lparr>peakPrice := c\<rparr>))
        (activePositions st) (activePositions (updatePeakPrice m' c st))
   \<and> list_all2 (\<lambda>p p'. peakPrice p \<le> peakPrice p' \<and> p'\<lparr>peakPrice := peakPrice p\<rparr> = p)
        (activePositions st)
        (activePositions (runOps cfg (map (\<lambda>(m, c). UpdatePeak m c) us) st))
   \<and> set (activePositions (snd (simulateSell cfg arg price' why rnd' now' st)))
        \<subseteq> set (activePositions st)
   \<and> set (activePositions (initializeTrading loaded st))
        \<subseteq> set loaded \<union> set (activePositions st)"
proof (intro conjI)
  have "peakOk (initialState cfg)" by (simp add: peakOk_def initialState_def)
  then have "peakOk (runOps cfg ops (initialState cfg))" by (rule runOps_peakOk)
  then show "\<forall>p \<in> set (activePositions (runOps cfg ops (initialState cfg))).
      buyPrice p \<le> peakPrice p"
    by (simp add: peakOk_def list_all_iff)
next
  show "\<forall>pos st'. simulateBuy cfg m pool price rnd now st = (Some pos, st') \<longrightarrow>
         buyPrice pos = price \<and> peakPrice pos = price
         \<and> activePositions st' = activePositions st @ [pos]"
    by (intro allI impI conjI)
      (rule simulateBuy_success(7), assumption, rule simulateBuy_success(8), assumption,
        rule simulateBuy_success(3), assumption)
next
  show "list_all2 (\<lambda>p p'. p' = p \<or> (peakPrice p < c \<and> tokenMintAddress p = m'
                                  \<and> p' = p\<lparr>peakPrice := c\<rparr>))
        (activePositions st) (activePositions (updatePeakPrice m' c st))"
    by (simp add: updatePeakPrice_def raisePeak_pointwise)
next
  show "list_all2 (\<lambda>p p'. peakPrice p \<le> peakPrice p' \<and> p'\<lparr>peakPrice := peakPrice p\<rparr> = p)
        (activePositions st)
        (activePositions (runOps cfg (map (\<lambda>(m, c). UpdatePeak m c) us) st))"
    by (rule updates_mono)
next
  show "set (activePositions (snd (simulateSell cfg arg price' why rnd' now' st)))
        \<subseteq> set (activePositions st)"
    by (rule simulateSell_subset)
next
  show "set (activePositions (initializeTrading loaded st))
        \<subseteq> set loaded \<union> set (activePositions st)"
    by (auto simp: initializeTrading_def Let_def split: if_splits)
qed

theorem peak_never_below_buy_witness:
  "activePositions (runOps defaultConfig exampleOps (initialState defaultConfig))
     = [mintA_position\<lparr>peakPrice := 3\<rparr>]
   \<and> buyPrice (mintA_position\<lparr>peakPrice := 3\<rparr>) = 2
   \<and> peakPrice (mintA_position\<lparr>peakPrice := 3\<rparr>) = 3
   \<and> buyPrice (mintA_position\<lparr>peakPrice := 3\<rparr>) \<le> peakPrice (mintA_position\<lparr>peakPrice := 3\<rparr>)
   \<and> simulateBuy defaultConfig ''MintA'' ''PoolA'' 2 (1 / 2) 0 (initialState defaultConfig)
       = (Some mintA_position, afterFirstBuy)
   \<and> peakPrice mintA_position = 2"
proof -
  have ev: "activePositions (runOps defaultConfig exampleOps (initialState defaultConfig))
     = [mintA_position\<lparr>peakPrice := 3\<rparr>]"
    by (simp add: exampleOps_eval)
  then have mem: "mintA_position\<lparr>peakPrice := 3\<rparr>
      \<in> set (activePositions (runOps defaultConfig exampleOps (initialState defaultConfig)))"
    by simp
  have vals: "buyPrice (mintA_position\<lparr>peakPrice := 3\<rparr>) = 2"
    "peakPrice (mintA_position\<lparr>peakPrice := 3\<rparr>) = 3"
    by (simp_all add: mintA_position_def)
  have bought:
    "simulateBuy defaultConfig ''MintA'' ''PoolA'' 2 (1 / 2) 0 (initialState defaultConfig)
       = (Some mintA_position, afterFirstBuy)"
    by (simp add: simulateBuy_def canBuy_def initialState_def defaultConfig_def
        calculateTokensForSol_def Let_def mintA_position_def afterFirstBuy_def)
  from peak_never_below_buy [of defaultConfig exampleOps "''MintA''" "''PoolA''" 2 "1 / 2" 0
      "initialState defaultConfig"] ev mem vals bought
  show ?thesis by blast
qed

section \<open>The exit rules\<close>










lemma completedTrades_updatePeakPrice [simp]:
  "completedTrades (updatePeakPrice m c st) = completedTrades st"
  by (simp add: updatePeakPrice_def)


















section \<open>The qualifier\<close>

text \<open>
  C1. The code accepts a pool whose reserves could not be parsed. For a fresh pool that
  pairs wrapped SOL with a token whose freeze authority is revoked, the liquidity
  lookup of the Solana service returns an object with \<open>rawData\<close> and no
  \<open>solAmount\<close>, and \<open>analyzeTokenAndPool\<close> returns \<open>suitable = true\<close> for it.
\<close>

theorem unparsed_reserves_accepted:
  "getPoolLiquidity poolAccounts (ammId freshSolPool)
     = Some \<lparr> rawData = Some ''AAAA'', solAmount = None \<rparr>
   \<and> analyzeTokenAndPool defaultConfig revokedMints (getPoolLiquidity poolAccounts) 60000 freshSolPool
     = \<lparr> suitable = True, reason = AllChecksPassed, tokenMint = Some ''TokenX'',
         verdictPoolId = Some ''PoolX'' \<rparr>"
  by (simp add: analyzeTokenAndPool_def getPoolLiquidity_def poolAccounts_def revokedMints_def
      freshSolPool_def defaultConfig_def WRAPPED_SOL_MINT_def falsyString_def falsyNumber_def
      rejectWith_def Let_def)

text \<open>
  C8, as amended. The verdict is a rejection at the pairing rule exactly when the pool
  is young enough to reach it and it is not the case that precisely one of the two
  mints is the wrapped SOL mint and the other mint is present (neither \<open>undefined\<close>
  nor the empty string). If neither mint is the wrapped SOL mint, or both are, the
  verdict is a rejection. Every accepting verdict carries the other mint, which is
  present and is not the wrapped SOL mint, and the pool id.
\<close>

theorem pairing_rule:
  assumes v: "v = analyzeTokenAndPool cfg mintLookup liquidityLookup now pd"
    and cand: "candidate = (if tokenA_mint pd = Some WRAPPED_SOL_MINT then tokenB_mint pd
                            else tokenA_mint pd)"
    and one: "exactlyOne = ((tokenA_mint pd = Some WRAPPED_SOL_MINT)
                            \<noteq> (tokenB_mint pd = Some WRAPPED_SOL_MINT))"
    and age: "ageOk = (real_of_int (now - timestamp pd) / (1000 * 60) \<le> MAX_POOL_AGE_MINUTES cfg)"
  shows
    "((reason v = NotDirectSolPair \<or> reason v = NewTokenIsSol)
        \<longleftrightarrow> ageOk \<and> \<not> (exactlyOne \<and> \<not> falsyString candidate))
     \<and> (tokenA_mint pd \<noteq> Some WRAPPED_SOL_MINT \<and> tokenB_mint pd \<noteq> Some WRAPPED_SOL_MINT
          \<longrightarrow> \<not> suitable v)
     \<and> (tokenA_mint pd = Some WRAPPED_SOL_MINT \<and> tokenB_mint pd = Some WRAPPED_SOL_MINT
          \<longrightarrow> \<not> suitable v)
     \<and> (suitable v
          \<longrightarrow> exactlyOne \<and> \<not> falsyString candidate \<and> candidate \<noteq> Some WRAPPED_SOL_MINT
              \<and> tokenMint v = candidate \<and> verdictPoolId v = Some (ammId pd))"
proof -
  have W: "\<not> falsyString (Some WRAPPED_SOL_MINT)"
    by (simp add: falsyString_def WRAPPED_SOL_MINT_def)
  have F: "falsyString None" by (simp add: falsyString_def)
  show ?thesis
    unfolding v cand one age
    by (auto simp: analyzeTokenAndPool_def rejectWith_def Let_def W F
        split: option.splits if_splits)
qed

theorem pairing_rule_witness:
  "analyzeTokenAndPool defaultConfig revokedMints deepLiquidity 60000 freshSolPool
     = \<lparr> suitable = True, reason = AllChecksPassed, tokenMint = Some ''TokenX'',
         verdictPoolId = Some ''PoolX'' \<rparr>
   \<and> tokenB_mint freshSolPool \<noteq> Some WRAPPED_SOL_MINT
   \<and> \<not> falsyString (tokenB_mint freshSolPool)
   \<and> tokenMint (analyzeTokenAndPool defaultConfig revokedMints deepLiquidity 60000 freshSolPool)
       = tokenB_mint freshSolPool
   \<and> verdictPoolId (analyzeTokenAndPool defaultConfig revokedMints deepLiquidity 60000 freshSolPool)
       = Some (ammId freshSolPool)"
proof -
  have ev: "analyzeTokenAndPool defaultConfig revokedMints deepLiquidity 60000 freshSolPool
     = \<lparr> suitable = True, reason = AllChecksPassed, tokenMint = Some ''TokenX'',
         verdictPoolId = Some ''PoolX'' \<rparr>"
    by (simp add: analyzeTokenAndPool_def deepLiquidity_def revokedMints_def
        freshSolPool_def defaultConfig_def WRAPPED_SOL_MINT_def falsyString_def falsyNumber_def
        rejectWith_def Let_def)
  then have acc: "suitable (analyzeTokenAndPool defaultConfig revokedMints deepLiquidity 60000
      freshSolPool)"
    by simp
  have a: "tokenA_mint freshSolPool = Some WRAPPED_SOL_MINT"
    by (simp add: freshSolPool_def)
  from pairing_rule [OF refl refl refl refl, of defaultConfig revokedMints deepLiquidity 60000
      freshSolPool] ev acc a
  show ?thesis by simp
qed

text \<open>
  The pairing rule of the claim as stated: precisely one of the two mints of this pool
  event is the wrapped SOL mint (the other is \<open>undefined\<close>), the pool is one minute
  old, and the verdict is the rejection of the pairing rule.
\<close>

theorem pairing_counterexample:
  "tokenA_mint missingMintPool = Some WRAPPED_SOL_MINT
   \<and> tokenB_mint missingMintPool \<noteq> Some WRAPPED_SOL_MINT
   \<and> real_of_int (60000 - timestamp missingMintPool) / (1000 * 60)
       \<le> MAX_POOL_AGE_MINUTES defaultConfig
   \<and> \<not> suitable (analyzeTokenAndPool defaultConfig revokedMints deepLiquidity 60000 missingMintPool)
   \<and> reason (analyzeTokenAndPool defaultConfig revokedMints deepLiquidity 60000 missingMintPool)
       = NotDirectSolPair"
  by (simp add: analyzeTokenAndPool_def missingMintPool_def defaultConfig_def
      WRAPPED_SOL_MINT_def falsyString_def rejectWith_def Let_def)

end
